theory Spec2Isabelle
  imports Complex_Main "HOL-Library.Multiset"
begin

section \<open>Strings\<close>

text \<open>
  JavaScript strings are modelled as HOL strings (lists of 8-bit characters, read as the
  UTF-8 bytes of the text). Every character the modelled code tests for is ASCII.
\<close>

text \<open>
  The characters that \<open>String.prototype.trim\<close> removes, in UTF-8: the white space
  characters (tab, vertical tab, form feed, space, U+00A0, U+FEFF and the space
  separators U+1680, U+2000 to U+200A, U+202F, U+205F, U+3000) and the line terminators
  (line feed, carriage return, U+2028, U+2029).
\<close>

definition whiteSpace :: "string list" where
  "whiteSpace =
     [[CHR 0x09], [CHR 0x0A], [CHR 0x0B], [CHR 0x0C], [CHR 0x0D], [CHR 0x20],
      [CHR 0xC2, CHR 0xA0],
      [CHR 0xE1, CHR 0x9A, CHR 0x80],
      [CHR 0xE2, CHR 0x80, CHR 0x80], [CHR 0xE2, CHR 0x80, CHR 0x81],
      [CHR 0xE2, CHR 0x80, CHR 0x82], [CHR 0xE2, CHR 0x80, CHR 0x83],
      [CHR 0xE2, CHR 0x80, CHR 0x84], [CHR 0xE2, CHR 0x80, CHR 0x85],
      [CHR 0xE2, CHR 0x80, CHR 0x86], [CHR 0xE2, CHR 0x80, CHR 0x87],
      [CHR 0xE2, CHR 0x80, CHR 0x88], [CHR 0xE2, CHR 0x80, CHR 0x89],
      [CHR 0xE2, CHR 0x80, CHR 0x8A],
      [CHR 0xE2, CHR 0x80, CHR 0xA8], [CHR 0xE2, CHR 0x80, CHR 0xA9],
      [CHR 0xE2, CHR 0x80, CHR 0xAF],
      [CHR 0xE2, CHR 0x81, CHR 0x9F],
      [CHR 0xE3, CHR 0x80, CHR 0x80],
      [CHR 0xEF, CHR 0xBB, CHR 0xBF]]"

text \<open>
  \<open>stripStart ws s\<close> removes from the start of \<open>s\<close> every leading occurrence of
  one of the byte sequences \<open>ws\<close>.
\<close>

function stripStart :: "string list \<Rightarrow> string \<Rightarrow> string" where
  "stripStart ws s =
     (case find (\<lambda>w. w \<noteq> [] \<and> take (length w) s = w) ws of
        None \<Rightarrow> s
      | Some w \<Rightarrow> stripStart ws (drop (length w) s))"
  by pat_completeness auto
termination
proof (relation "measure (\<lambda>(ws, s). length s)")
  show "wf (measure (\<lambda>(ws, s). length s))" by simp
next
  fix ws :: "string list" and s w :: string
  assume "find (\<lambda>w. w \<noteq> [] \<and> take (length w) s = w) ws = Some w"
  then have "w \<noteq> []" and t: "take (length w) s = w"
    by (auto simp: find_Some_iff)
  then have "s \<noteq> []" by auto
  with \<open>w \<noteq> []\<close> have "length (drop (length w) s) < length s" by simp
  then show "((ws, drop (length w) s), (ws, s)) \<in> measure (\<lambda>(ws, s). length s)" by simp
qed

declare stripStart.simps [simp del]

text \<open>
  \<open>String.prototype.trim\<close>: white space is removed at the start and, on the reversed
  bytes, at the end.
\<close>

definition trim :: "string \<Rightarrow> string" where
  "trim s = rev (stripStart (map rev whiteSpace) (rev (stripStart whiteSpace s)))"

text \<open>\<open>Array.prototype.join\<close> with a separator.\<close>

fun join :: "string \<Rightarrow> string list \<Rightarrow> string" where
  "join sep [] = []"
| "join sep [x] = x"
| "join sep (x # y # ys) = x @ sep @ join sep (y # ys)"

text \<open>A string used as a condition is true when it is defined and not empty.\<close>

fun truthy :: "string option \<Rightarrow> bool" where
  "truthy None = False"
| "truthy (Some s) = (s \<noteq> [])"

text \<open>\<open>a || b\<close> on optional strings, with a string as last resort.\<close>

fun orElse :: "string option \<Rightarrow> string \<Rightarrow> string" where
  "orElse None d = d"
| "orElse (Some s) d = (if s = [] then d else s)"

section \<open>CSV tokenizer (scripts/build-gtfs-lookup.ts)\<close>

definition dquote :: char where "dquote = CHR 0x22"
definition comma :: char where "comma = CHR 0x2C"
definition LF :: char where "LF = CHR 0x0A"
definition CR :: char where "CR = CHR 0x0D"

text \<open>\<open>content[i + 1] === ch\<close>: the next character exists and is \<open>ch\<close>.\<close>

fun nextIs :: "char \<Rightarrow> string \<Rightarrow> bool" where
  "nextIs ch [] = False"
| "nextIs ch (d # ds) = (d = ch)"

text \<open>
  \<open>flushRow\<close>: the row is handed to the callback when it has at least one field. The
  callback's calls are collected in order, so that the row index is the position in the
  output list.
\<close>

definition flushRow :: "string list \<Rightarrow> string list list \<Rightarrow> string list list" where
  "flushRow row out = (if length row > 0 then out @ [row] else out)"

text \<open>
  The character loop. The arguments are the rest of the content, the current row, the
  current field, the quoting flag and the rows emitted so far. \<open>flushField\<close> is
  \<open>row @ [field]\<close> with the field reset to the empty string.
\<close>

fun csvLoop :: "string \<Rightarrow> string list \<Rightarrow> string \<Rightarrow> bool \<Rightarrow> string list list \<Rightarrow> string list list" where
  "csvLoop [] row field inQuotes out =
     (if length field > 0 \<or> length row > 0 then flushRow (row @ [field]) out else out)"
| "csvLoop (c # cs) row field inQuotes out =
     (if c = dquote then
        (if inQuotes \<and> nextIs dquote cs then csvLoop (tl cs) row (field @ [dquote]) inQuotes out
         else csvLoop cs row field (\<not> inQuotes) out)
      else if c = comma \<and> \<not> inQuotes then csvLoop cs (row @ [field]) [] inQuotes out
      else if (c = LF \<or> c = CR) \<and> \<not> inQuotes then
        csvLoop (if c = CR \<and> nextIs LF cs then tl cs else cs) [] [] inQuotes
          (flushRow (row @ [field]) out)
      else csvLoop cs row (field @ [c]) inQuotes out)"

definition forEachCsvRow :: "string \<Rightarrow> string list list" where
  "forEachCsvRow content = csvLoop content [] [] False []"

section \<open>Agency table (scripts/build-gtfs-lookup.ts)\<close>

text \<open>
  \<open>row.indexOf(name)\<close>: the first position of a column name; \<open>None\<close> stands for
  the result \<open>-1\<close>.
\<close>

fun indexOf :: "string list \<Rightarrow> string \<Rightarrow> nat option" where
  "indexOf [] x = None"
| "indexOf (y # ys) x = (if y = x then Some 0 else map_option Suc (indexOf ys x))"

text \<open>
  \<open>row[idx]\<close>: \<open>undefined\<close> at index \<open>-1\<close> and beyond the end of the row.
\<close>

fun atIndex :: "string list \<Rightarrow> nat option \<Rightarrow> string option" where
  "atIndex row None = None"
| "atIndex row (Some i) = (if i < length row then Some (row ! i) else None)"

text \<open>
  \<open>replace\<close> of a leading U+FEFF: the byte order mark, three bytes in UTF-8, is removed
  from the start of the string.
\<close>

definition stripBom :: "string \<Rightarrow> string" where
  "stripBom s = (if take 3 s = [CHR 0xEF, CHR 0xBB, CHR 0xBF] then drop 3 s else s)"

text \<open>\<open>if (row[0]) row[0] = row[0].replace(...)\<close> on the header row.\<close>

fun stripHeader :: "string list \<Rightarrow> string list" where
  "stripHeader [] = []"
| "stripHeader (h # hs) = (if h \<noteq> [] then stripBom h # hs else h # hs)"

text \<open>
  A string-to-string record without prototype, as the list of its entries in
  insertion order: assigning to an existing key keeps the key's position.
\<close>

fun setKey :: "string \<Rightarrow> string \<Rightarrow> (string \<times> string) list \<Rightarrow> (string \<times> string) list" where
  "setKey k v [] = [(k, v)]"
| "setKey k v ((k', v') # kvs) = (if k' = k then (k, v) # kvs else (k', v') # setKey k v kvs)"

record agency_state =
  idxId :: "nat option"
  idxName :: "nat option"
  fallbackId :: string
  agencyTable :: "(string \<times> string) list"

text \<open>The callback of \<open>parseAgencies\<close>, on one row and its index.\<close>

definition agencyOnRow :: "string list \<Rightarrow> nat \<Rightarrow> agency_state \<Rightarrow> agency_state" where
  "agencyOnRow row rowIndex st =
     (if rowIndex = 0 then
        (let row' = stripHeader row
         in st\<lparr>idxId := indexOf row' ''agency_id'', idxName := indexOf row' ''agency_name''\<rparr>)
      else
        (let name = trim (orElse (atIndex row (idxName st)) [])
         in if name = [] then st
            else
              (let ident = (if idxId st \<noteq> None
                            then trim (orElse (atIndex row (idxId st)) (fallbackId st))
                            else fallbackId st)
               in st\<lparr>agencyTable := setKey ident name (agencyTable st), fallbackId := ident\<rparr>)))"

fun agencyRows :: "string list list \<Rightarrow> nat \<Rightarrow> agency_state \<Rightarrow> agency_state" where
  "agencyRows [] i st = st"
| "agencyRows (r # rs) i st = agencyRows rs (Suc i) (agencyOnRow r i st)"

definition agencyInit :: agency_state where
  "agencyInit = \<lparr>idxId = None, idxName = None, fallbackId = ''default'', agencyTable = []\<rparr>"

text \<open>
  \<open>Object.keys(agencies).length === 1 ? Object.keys(agencies)[0] : undefined\<close>
\<close>

fun onlyKey :: "(string \<times> string) list \<Rightarrow> string option" where
  "onlyKey [(k, v)] = Some k"
| "onlyKey kvs = None"

text \<open>The result: the agency table and the default agency id.\<close>

definition parseAgencies :: "string \<Rightarrow> (string \<times> string) list \<times> string option" where
  "parseAgencies agencyTxt =
     (let st = agencyRows (forEachCsvRow agencyTxt) 0 agencyInit
      in (agencyTable st, onlyKey (agencyTable st)))"

text \<open>
  The specification's reading of the fallback, for comparison with the code: "each new
  name becomes the fallback id for subsequent unlabelled rows". It differs from
  \<open>agencyOnRow\<close> in the last assignment only.
\<close>

definition agencyOnRow_rotating :: "string list \<Rightarrow> nat \<Rightarrow> agency_state \<Rightarrow> agency_state" where
  "agencyOnRow_rotating row rowIndex st =
     (if rowIndex = 0 then
        (let row' = stripHeader row
         in st\<lparr>idxId := indexOf row' ''agency_id'', idxName := indexOf row' ''agency_name''\<rparr>)
      else
        (let name = trim (orElse (atIndex row (idxName st)) [])
         in if name = [] then st
            else
              (let ident = (if idxId st \<noteq> None
                            then trim (orElse (atIndex row (idxId st)) (fallbackId st))
                            else fallbackId st)
               in st\<lparr>agencyTable := setKey ident name (agencyTable st), fallbackId := name\<rparr>)))"

fun agencyRows_rotating :: "string list list \<Rightarrow> nat \<Rightarrow> agency_state \<Rightarrow> agency_state" where
  "agencyRows_rotating [] i st = st"
| "agencyRows_rotating (r # rs) i st = agencyRows_rotating rs (Suc i) (agencyOnRow_rotating r i st)"

definition parseAgencies_rotating :: "string \<Rightarrow> (string \<times> string) list \<times> string option" where
  "parseAgencies_rotating agencyTxt =
     (let st = agencyRows_rotating (forEachCsvRow agencyTxt) 0 agencyInit
      in (agencyTable st, onlyKey (agencyTable st)))"

section \<open>Line resolver (src/gtfs/lookup.ts)\<close>

record GtfsRouteInfo =
  shortName :: "string option"
  longName :: "string option"
  routeType :: "real option"
  agencyId :: "string option"

text \<open>
  The lookup is parsed from JSON: its tables are plain objects, whose prototype is
  \<open>Object.prototype\<close>. A table is modelled by its own properties.
\<close>

record GtfsLookup =
  routes :: "string \<rightharpoonup> GtfsRouteInfo"
  trips :: "string \<rightharpoonup> string"
  routeShortNameToId :: "(string \<rightharpoonup> string) option"
  agencies :: "string \<rightharpoonup> string"
  defaultAgencyId :: "string option"

text \<open>The names of the members that every plain object inherits.\<close>

definition objectPrototypeMembers :: "string list" where
  "objectPrototypeMembers =
     [''constructor'', ''__defineGetter__'', ''__defineSetter__'', ''hasOwnProperty'',
      ''__lookupGetter__'', ''__lookupSetter__'', ''isPrototypeOf'', ''propertyIsEnumerable'',
      ''toString'', ''valueOf'', ''__proto__'', ''toLocaleString'']"

text \<open>
  What a property read \<open>table[key]\<close> on a table of strings gives: \<open>undefined\<close>,
  the string stored under the key, or, for a key that the table does not hold itself,
  the inherited member of that name (a function, or the prototype object for
  \<open>__proto__\<close>).
\<close>

datatype jsval = Undefined | Str string | Member string

definition readProp :: "(string \<rightharpoonup> string) \<Rightarrow> string \<Rightarrow> jsval" where
  "readProp table key =
     (case table key of
        Some v \<Rightarrow> Str v
      | None \<Rightarrow> if key \<in> set objectPrototypeMembers then Member key else Undefined)"

text \<open>A value used as a condition: an inherited member is an object, hence true.\<close>

fun truthyVal :: "jsval \<Rightarrow> bool" where
  "truthyVal Undefined = False"
| "truthyVal (Str s) = (s \<noteq> [])"
| "truthyVal (Member k) = True"

text \<open>
  A value used as a property key is converted to a string. The engine prints a built-in
  function as \<open>function name() { [native code] }\<close>; the member \<open>constructor\<close> is
  the function \<open>Object\<close>, and \<open>__proto__\<close> is the prototype object itself.
\<close>

definition memberString :: "string \<Rightarrow> string" where
  "memberString k =
     (if k = ''__proto__'' then ''[object Object]''
      else if k = ''constructor'' then ''function Object() { [native code] }''
      else ''function '' @ k @ ''() { [native code] }'')"

fun propertyKey :: "jsval \<Rightarrow> string" where
  "propertyKey Undefined = ''undefined''"
| "propertyKey (Str s) = s"
| "propertyKey (Member k) = memberString k"

text \<open>
  \<open>lookup.routes[key]\<close>: the route stored under the key, or an inherited member,
  which is an object without any of the route fields.
\<close>

definition readRoute :: "GtfsLookup \<Rightarrow> string \<Rightarrow> GtfsRouteInfo option" where
  "readRoute lookup key =
     (case routes lookup key of
        Some r \<Rightarrow> Some r
      | None \<Rightarrow>
          if key \<in> set objectPrototypeMembers
          then Some \<lparr>shortName = None, longName = None, routeType = None, agencyId = None\<rparr>
          else None)"

datatype line_source = Gtfs | Fallback

record LineInfo =
  lineId :: "string option"
  lineDisplay :: string
  lineType :: "string option"
  operator :: jsval
  routeId :: jsval
  source :: line_source

record LineQuery =
  qLineId :: "string option"
  qCategory :: "string option"
  qNumber :: "string option"
  qOperator :: "string option"

definition mapRouteType :: "real \<Rightarrow> string" where
  "mapRouteType t =
     (if t \<ge> 100 \<and> t < 200 then ''train''
      else if t \<ge> 700 \<and> t < 800 then ''bus''
      else if t = 0 then ''tram''
      else if t = 1 then ''metro''
      else if t = 2 then ''train''
      else if t = 3 then ''bus''
      else if t = 4 then ''ferry''
      else if t = 5 then ''cable_tram''
      else if t = 6 then ''aerial_lift''
      else if t = 7 then ''funicular''
      else if t = 11 then ''trolleybus''
      else if t = 12 then ''monorail''
      else ''train'')"

text \<open>\<open>toUpperCase\<close> on the ASCII letters.\<close>

definition toUpperChar :: "char \<Rightarrow> char" where
  "toUpperChar c =
     (let n = (of_char c :: nat) in if 97 \<le> n \<and> n \<le> 122 then char_of (n - 32) else c)"

definition toUpperCase :: "string \<Rightarrow> string" where
  "toUpperCase s = map toUpperChar s"

definition startsWith :: "string \<Rightarrow> string \<Rightarrow> bool" where
  "startsWith s p = (take (length p) s = p)"

fun includesStr :: "string \<Rightarrow> string \<Rightarrow> bool" where
  "includesStr [] p = (p = [])"
| "includesStr (c # cs) p = (startsWith (c # cs) p \<or> includesStr cs p)"

text \<open>\<open>lineId?.trim() || undefined\<close>\<close>

definition trimmedLineId :: "LineQuery \<Rightarrow> string option" where
  "trimmedLineId q =
     (case qLineId q of None \<Rightarrow> None
      | Some s \<Rightarrow> if trim s = [] then None else Some (trim s))"

text \<open>\<open>[category, number].filter(Boolean).join(" ").trim()\<close>\<close>

definition fallbackDisplay :: "LineQuery \<Rightarrow> string" where
  "fallbackDisplay q = trim (join '' '' (map the (filter truthy [qCategory q, qNumber q])))"

text \<open>\<open>trimmedLineId || fallbackDisplay\<close>\<close>

definition lookupKey :: "LineQuery \<Rightarrow> string" where
  "lookupKey q = orElse (trimmedLineId q) (fallbackDisplay q)"

text \<open>
  The three steps that look for a route id: the trip table, the key itself as a route
  id, the short-name table. A step runs only while the route id is still missing
  (\<open>undefined\<close> or the empty string).
\<close>

definition findRouteId :: "GtfsLookup \<Rightarrow> string \<Rightarrow> jsval" where
  "findRouteId lookup key =
     (let r1 = readProp (trips lookup) key;
          r2 = (if \<not> truthyVal r1 \<and> readRoute lookup key \<noteq> None then Str key else r1);
          r3 = (if \<not> truthyVal r2
                then (case routeShortNameToId lookup of
                        None \<Rightarrow> r2
                      | Some m \<Rightarrow> if truthyVal (readProp m key) then readProp m key else r2)
                else r2)
      in r3)"

text \<open>\<open>route?.shortName || route?.longName\<close>\<close>

definition routeDisplay :: "GtfsRouteInfo option \<Rightarrow> string option" where
  "routeDisplay route =
     (case route of None \<Rightarrow> None
      | Some r \<Rightarrow> if truthy (shortName r) then shortName r else longName r)"

text \<open>The category heuristic for the line type.\<close>

definition categoryLineType :: "string \<Rightarrow> string option" where
  "categoryLineType category =
     (let upper = toUpperCase category
      in if startsWith upper ''B'' then Some ''bus''
         else if includesStr upper ''TRAM'' \<or> upper = ''T'' then Some ''tram''
         else if upper \<in> set [''IC'', ''IR'', ''RE'', ''R'', ''EC'', ''EN'', ''ICE'', ''S'']
              then Some ''train''
         else None)"

text \<open>The operator the caller passed, as a value.\<close>

definition operatorOf :: "LineQuery \<Rightarrow> jsval" where
  "operatorOf q = (case qOperator q of None \<Rightarrow> Undefined | Some s \<Rightarrow> Str s)"

definition resolveLineInfo :: "LineQuery \<Rightarrow> GtfsLookup option \<Rightarrow> LineInfo" where
  "resolveLineInfo q lookupOpt =
     (let tid = trimmedLineId q;
          fb = fallbackDisplay q;
          lineDisplay0 = (if fb \<noteq> [] then fb else orElse tid []);
          key = orElse tid fb;
          init = \<lparr>lineId = tid, lineDisplay = lineDisplay0, lineType = None,
                  operator = operatorOf q, routeId = Undefined, source = Fallback\<rparr>;
          looked =
            (case lookupOpt of
               None \<Rightarrow> init
             | Some lookup \<Rightarrow>
                 if key = [] then init
                 else
                   (let rid = findRouteId lookup key
                    in if truthyVal rid then
                         (let route = readRoute lookup (propertyKey rid);
                              display = routeDisplay route;
                              ld = (if truthy display then trim (the display) else lineDisplay0);
                              lt = (case route of None \<Rightarrow> None
                                    | Some r \<Rightarrow> map_option mapRouteType (routeType r));
                              aid = (case route of
                                       None \<Rightarrow> defaultAgencyId lookup
                                     | Some r \<Rightarrow> if truthy (agencyId r) then agencyId r
                                                else defaultAgencyId lookup);
                              op = (if truthy aid \<and> truthyVal (readProp (agencies lookup) (the aid))
                                    then readProp (agencies lookup) (the aid) else operatorOf q)
                          in \<lparr>lineId = tid, lineDisplay = ld, lineType = lt, operator = op,
                              routeId = rid, source = Gtfs\<rparr>)
                       else init\<lparr>routeId := rid\<rparr>));
          ld2 = (if lineDisplay looked = []
                 then (case tid of Some t \<Rightarrow> t | None \<Rightarrow> fb)
                 else lineDisplay looked);
          lt2 = (if \<not> truthy (lineType looked) \<and> truthy (qCategory q)
                 then categoryLineType (the (qCategory q))
                 else lineType looked)
      in looked\<lparr>lineDisplay := ld2, lineType := lt2\<rparr>)"

text \<open>
  The display string as the specification orders the fallbacks: the resolved route name
  when a route id was found, else the raw trimmed identifier, else the join of category
  and number, else the empty string.
\<close>

definition lineDisplay_spec :: "LineQuery \<Rightarrow> GtfsLookup option \<Rightarrow> string" where
  "lineDisplay_spec q lookupOpt =
     (let resolved =
            (case lookupOpt of
               None \<Rightarrow> None
             | Some lookup \<Rightarrow>
                 if lookupKey q = [] then None
                 else (let rid = findRouteId lookup (lookupKey q)
                       in if truthyVal rid then routeDisplay (readRoute lookup (propertyKey rid))
                          else None))
      in if truthy resolved then trim (the resolved)
         else (case trimmedLineId q of
                 Some t \<Rightarrow> t
               | None \<Rightarrow> fallbackDisplay q))"

section \<open>Connections and their metrics (src/insights/decision.ts)\<close>

text \<open>
  Numbers that the code produces by \<open>Math.round\<close>, and the counts and minutes it reads
  from a connection, are integers; scores, penalties and weather samples are real
  numbers. What the host provides is a parameter of the model: parsing a time stamp
  (\<open>new Date(s).getTime()\<close>, \<open>None\<close> for \<open>NaN\<close>), printing a time of day in
  the locale, moving a date by minutes and printing it in ISO format (\<open>None\<close> when
  the moved date is outside the range of dates, where \<open>toISOString\<close> throws a
  \<open>RangeError\<close>), printing a score with two decimals, and printing a number that
  need not be an integer.
\<close>

datatype error = RangeError

record host =
  getTime :: "string \<Rightarrow> int option"
  toLocaleTimeString :: "int \<Rightarrow> string"
  minutesEarlierISO :: "int \<Rightarrow> int \<Rightarrow> string option"
  toFixed2 :: "real \<Rightarrow> string"
  numberToString :: "real \<Rightarrow> string"

datatype leg_kind = Ride | Walk

record endpoint =
  name :: string
  timePlanned :: string
  timeActual :: "string option"
  platform :: "string option"

record Leg =
  legType :: leg_kind
  legFrom :: endpoint
  legTo :: endpoint
  line :: "string option"
  delayMinutes :: "int option"

datatype risk_level = Low | Medium | High

record WeatherSample =
  precipitation :: real
  snowfall :: real
  windGusts :: real

record WeatherInsight =
  samples :: "WeatherSample list option"
  penalty :: "real option"
  weatherLevel :: risk_level
  weatherReasons :: "string list option"

record Reliability =
  score :: "real option"
  reasonCodes :: "string list option"

record Connection =
  connId :: string
  departureTime :: string
  arrivalTime :: string
  durationMinutes :: int
  transfersCount :: int
  legs :: "Leg list"
  reliabilityScore :: "real option"
  reliability :: "Reliability option"
  weather :: "WeatherInsight option"

record ConnectionMetrics =
  walkingMinutes :: int
  transferWaitMinutes :: int
  minTransferMinutes :: "int option"
  transferStation :: "string option"
  exposureMinutes :: int
  delayMinutesTotal :: int
  delayAlerts :: "string list"
  platformChanges :: "string list"

text \<open>
  \<open>Math.round(d / 60000)\<close> for a difference \<open>d\<close> of milliseconds: the nearest
  integer, a half rounded upwards.
\<close>

definition roundMinutes :: "int \<Rightarrow> int" where
  "roundMinutes d = (d + 30000) div 60000"

definition minutesBetween :: "host \<Rightarrow> string option \<Rightarrow> string option \<Rightarrow> int" where
  "minutesBetween H startISO endISO =
     (if \<not> truthy startISO \<or> \<not> truthy endISO then 0
      else (case (getTime H (the startISO), getTime H (the endISO)) of
              (Some start, Some end') \<Rightarrow> max 0 (roundMinutes (end' - start))
            | _ \<Rightarrow> 0))"

text \<open>\<open>p.timeActual || p.timePlanned\<close>\<close>

definition actualOrPlanned :: "endpoint \<Rightarrow> string option" where
  "actualOrPlanned p = (if truthy (timeActual p) then timeActual p else Some (timePlanned p))"

definition legMinutes :: "host \<Rightarrow> Leg \<Rightarrow> int" where
  "legMinutes H leg = minutesBetween H (actualOrPlanned (legFrom leg)) (actualOrPlanned (legTo leg))"

text \<open>
  The loop over \<open>i < rideLegs.length - 1\<close>: one wait for each ride leg and the ride leg
  after it.
\<close>

fun transferWaitMinutesList :: "host \<Rightarrow> Leg list \<Rightarrow> int list" where
  "transferWaitMinutesList H (a # b # rest) =
     minutesBetween H (actualOrPlanned (legTo a)) (actualOrPlanned (legFrom b))
       # transferWaitMinutesList H (b # rest)"
| "transferWaitMinutesList H rideLegs = []"

text \<open>\<open>Math.min(...xs)\<close> on a list that is not empty.\<close>

fun mathMin :: "int list \<Rightarrow> int" where
  "mathMin [] = 0"
| "mathMin [x] = x"
| "mathMin (x # y # ys) = min x (mathMin (y # ys))"

text \<open>\<open>findIndex\<close>: the first position where the test holds, \<open>None\<close> for \<open>-1\<close>.\<close>

fun findIndex :: "('a \<Rightarrow> bool) \<Rightarrow> 'a list \<Rightarrow> nat option" where
  "findIndex P [] = None"
| "findIndex P (x # xs) = (if P x then Some 0 else map_option Suc (findIndex P xs))"

text \<open>Decimal digits of a number, as template literals print an integer.\<close>

fun showNat :: "nat \<Rightarrow> string" where
  "showNat n = (if n < 10 then [char_of (48 + n)] else showNat (n div 10) @ [char_of (48 + n mod 10)])"

definition showInt :: "int \<Rightarrow> string" where
  "showInt i = (if i < 0 then CHR ''-'' # showNat (nat (- i)) else showNat (nat i))"

text \<open>\<open>if (!xs.includes(label)) xs.push(label)\<close>\<close>

definition pushUnique :: "string \<Rightarrow> string list \<Rightarrow> string list" where
  "pushUnique label xs = (if label \<in> set xs then xs else xs @ [label])"

text \<open>The delay loop over the ride legs: the total and the alert labels.\<close>

fun delayLoop :: "Leg list \<Rightarrow> int \<times> string list \<Rightarrow> int \<times> string list" where
  "delayLoop [] acc = acc"
| "delayLoop (leg # rest) (delayTotal, alerts) =
     (case delayMinutes leg of
        None \<Rightarrow> delayLoop rest (delayTotal, alerts)
      | Some d \<Rightarrow>
          if d \<noteq> 0 \<and> d > 0 then
            delayLoop rest
              (delayTotal + d,
               pushUnique (if truthy (line leg)
                           then the (line leg) @ '' +'' @ showInt d @ '' min''
                           else ''Delay +'' @ showInt d @ '' min'') alerts)
          else delayLoop rest (delayTotal, alerts))"

definition addPlatformChange :: "string \<Rightarrow> string option \<Rightarrow> string list \<Rightarrow> string list" where
  "addPlatformChange station pl changes =
     (if \<not> truthy pl \<or> CHR ''!'' \<notin> set (the pl) then changes
      else pushUnique (station @ '' (Pl. '' @ the pl @ '')'') changes)"

fun platformLoop :: "Leg list \<Rightarrow> string list \<Rightarrow> string list" where
  "platformLoop [] changes = changes"
| "platformLoop (leg # rest) changes =
     platformLoop rest
       (addPlatformChange (name (legTo leg)) (platform (legTo leg))
          (addPlatformChange (name (legFrom leg)) (platform (legFrom leg)) changes))"

definition buildMetrics :: "host \<Rightarrow> Leg list \<Rightarrow> ConnectionMetrics" where
  "buildMetrics H ls =
     (let walkLegs = filter (\<lambda>leg. legType leg = Walk) ls;
          rideLegs = filter (\<lambda>leg. legType leg = Ride) ls;
          walking = foldl (\<lambda>sum leg. sum + legMinutes H leg) 0 walkLegs;
          waits = transferWaitMinutesList H rideLegs;
          waitSum = foldl (\<lambda>sum val. sum + val) 0 waits;
          minWait = (if length waits \<noteq> 0 then Some (mathMin waits) else None);
          tightTransferIndex = findIndex (\<lambda>minutes. minWait \<noteq> None \<and> Some minutes = minWait) waits;
          station = (case tightTransferIndex of
                       None \<Rightarrow> None
                     | Some i \<Rightarrow> if i < length rideLegs
                                 then Some (name (legTo (rideLegs ! i))) else None);
          delays = delayLoop rideLegs (0, [])
      in \<lparr>walkingMinutes = walking,
          transferWaitMinutes = waitSum,
          minTransferMinutes = minWait,
          transferStation = station,
          exposureMinutes = walking + waitSum,
          delayMinutesTotal = fst delays,
          delayAlerts = snd delays,
          platformChanges = platformLoop ls []\<rparr>)"

section \<open>Risk model\<close>

definition clamp :: "real \<Rightarrow> real \<Rightarrow> real \<Rightarrow> real" where
  "clamp v lo hi = max lo (min hi v)"

definition normalize :: "real \<Rightarrow> real \<Rightarrow> real \<Rightarrow> real" where
  "normalize v lo hi = (if hi \<le> lo then 0 else clamp ((v - lo) / (hi - lo)) 0 1)"

text \<open>\<open>connection.reliability?.score ?? connection.reliabilityScore ?? 0.7\<close>\<close>

definition reliabilityOf :: "Connection \<Rightarrow> real" where
  "reliabilityOf c =
     (case (case reliability c of None \<Rightarrow> None | Some r \<Rightarrow> score r) of
        Some s \<Rightarrow> s
      | None \<Rightarrow> (case reliabilityScore c of Some s \<Rightarrow> s | None \<Rightarrow> 0.7))"

text \<open>\<open>connection.weather?.penalty ?? 0\<close>\<close>

definition weatherPenaltyOf :: "Connection \<Rightarrow> real" where
  "weatherPenaltyOf c =
     (case (case weather c of None \<Rightarrow> None | Some w \<Rightarrow> penalty w) of
        Some p \<Rightarrow> p
      | None \<Rightarrow> 0)"

record Risk =
  riskScore :: real
  riskLevel :: risk_level

text \<open>
  \<open>computeRisk\<close> in arithmetic without rounding, as the ranking below uses it; it is
  the instance \<open>exactNumbers\<close> of \<open>computeRiskOn\<close>, which follows it and takes the
  arithmetic as a parameter.
\<close>

definition computeRisk :: "Connection \<Rightarrow> ConnectionMetrics \<Rightarrow> Risk" where
  "computeRisk c m =
     (let reliabilityScore' = reliabilityOf c;
          delayLikelihood = 1 - reliabilityScore';
          weatherPenalty = weatherPenaltyOf c;
          exposureFactor = clamp (real_of_int (exposureMinutes m) / 20) 0 1;
          weatherExposureRisk = weatherPenalty * (0.3 + 0.7 * exposureFactor);
          tightTransferPenalty =
            (if minTransferMinutes m \<noteq> None \<and> the (minTransferMinutes m) < 6 then 0.12
             else if minTransferMinutes m \<noteq> None \<and> the (minTransferMinutes m) < 8 then 0.06
             else 0);
          sc = clamp (delayLikelihood + weatherExposureRisk + tightTransferPenalty) 0 1
      in \<lparr>riskScore = sc,
          riskLevel = (if sc \<ge> 0.6 then High else if sc \<ge> 0.35 then Medium else Low)\<rparr>)"

text \<open>
  The arithmetic of the engine. A number of the code is a double, which is a real
  number; an operation gives the double next to the exact result, and a decimal literal
  denotes the double next to it. Comparison, \<open>Math.min\<close> and \<open>Math.max\<close> are
  exact.
\<close>

record numbers =
  add :: "real \<Rightarrow> real \<Rightarrow> real"
  sub :: "real \<Rightarrow> real \<Rightarrow> real"
  mul :: "real \<Rightarrow> real \<Rightarrow> real"
  quot :: "real \<Rightarrow> real \<Rightarrow> real"
  lit :: "real \<Rightarrow> real"

text \<open>Arithmetic without rounding.\<close>

definition exactNumbers :: numbers where
  "exactNumbers = \<lparr>add = (+), sub = (-), mul = (*), quot = (/), lit = (\<lambda>x. x)\<rparr>"

text \<open>
  \<open>computeRisk\<close> with the arithmetic of the engine, operation by operation as the code
  has them.
\<close>

definition computeRiskOn :: "numbers \<Rightarrow> Connection \<Rightarrow> ConnectionMetrics \<Rightarrow> Risk" where
  "computeRiskOn N c m =
     (let reliabilityScore' =
            (case (case reliability c of None \<Rightarrow> None | Some r \<Rightarrow> score r) of
               Some s \<Rightarrow> s
             | None \<Rightarrow> (case reliabilityScore c of Some s \<Rightarrow> s | None \<Rightarrow> lit N 0.7));
          delayLikelihood = sub N 1 reliabilityScore';
          weatherPenalty =
            (case (case weather c of None \<Rightarrow> None | Some w \<Rightarrow> penalty w) of
               Some p \<Rightarrow> p
             | None \<Rightarrow> 0);
          exposureFactor = clamp (quot N (real_of_int (exposureMinutes m)) 20) 0 1;
          weatherExposureRisk =
            mul N weatherPenalty (add N (lit N 0.3) (mul N (lit N 0.7) exposureFactor));
          tightTransferPenalty =
            (if minTransferMinutes m \<noteq> None \<and> the (minTransferMinutes m) < 6 then lit N 0.12
             else if minTransferMinutes m \<noteq> None \<and> the (minTransferMinutes m) < 8 then lit N 0.06
             else 0);
          sc = clamp (add N (add N delayLikelihood weatherExposureRisk) tightTransferPenalty) 0 1
      in \<lparr>riskScore = sc,
          riskLevel = (if sc \<ge> lit N 0.6 then High
                       else if sc \<ge> lit N 0.35 then Medium else Low)\<rparr>)"

text \<open>
  The doubles. \<open>roundEven\<close> is the nearest integer, a half going to the even
  neighbour; \<open>nearestDouble\<close> keeps 53 binary digits (numbers so large or so small that
  the exponent of a double runs out are not modelled).
\<close>

definition roundEven :: "real \<Rightarrow> int" where
  "roundEven y =
     (let f = \<lfloor>y\<rfloor>; d = y - real_of_int f
      in if d < 1 / 2 then f
         else if 1 / 2 < d then f + 1
         else if even f then f else f + 1)"

definition nearestDouble :: "real \<Rightarrow> real" where
  "nearestDouble x =
     (if x = 0 then 0
      else (let u = 2 powr (real_of_int \<lfloor>log 2 \<bar>x\<bar>\<rfloor> - 52)
            in real_of_int (roundEven (x / u)) * u))"

definition doubleNumbers :: numbers where
  "doubleNumbers =
     \<lparr>add = (\<lambda>a b. nearestDouble (a + b)),
      sub = (\<lambda>a b. nearestDouble (a - b)),
      mul = (\<lambda>a b. nearestDouble (a * b)),
      quot = (\<lambda>a b. nearestDouble (a / b)),
      lit = nearestDouble\<rparr>"

section \<open>Reasons\<close>

record DecisionPreferences =
  maxTransfers :: "real option"
  preferLowWalking :: "bool option"
  minimizeOutdoorIfRaining :: "bool option"

text \<open>\<open>!!preferences?.flag\<close>\<close>

definition flagOn :: "DecisionPreferences option \<Rightarrow> (DecisionPreferences \<Rightarrow> bool option) \<Rightarrow> bool" where
  "flagOn prefs flag = (case prefs of None \<Rightarrow> False | Some p \<Rightarrow> flag p = Some True)"

definition isWetWeather :: "WeatherInsight option \<Rightarrow> bool" where
  "isWetWeather w =
     (case w of
        None \<Rightarrow> False
      | Some wi \<Rightarrow>
          (case samples wi of
             None \<Rightarrow> False
           | Some ss \<Rightarrow>
               if length ss = 0 then False
               else list_ex (\<lambda>sample. precipitation sample > 0 \<or> snowfall sample > 0) ss))"

definition getWeatherConditionLabel :: "WeatherInsight option \<Rightarrow> string option" where
  "getWeatherConditionLabel w =
     (case w of
        None \<Rightarrow> None
      | Some wi \<Rightarrow>
          (case samples wi of
             None \<Rightarrow> None
           | Some [] \<Rightarrow> None
           | Some (sample # _) \<Rightarrow>
               if snowfall sample > 0 then Some ''snow''
               else if precipitation sample > 0 then Some ''rain''
               else if windGusts sample > 50 then Some ''wind''
               else None))"

text \<open>
  \<open>addReason\<close>: an empty label and a label that is already in the list are dropped.
\<close>

definition addReason :: "string \<Rightarrow> nat \<Rightarrow> (string \<times> nat) list \<Rightarrow> (string \<times> nat) list" where
  "addReason label priority rs =
     (if label = [] then rs
      else if list_ex (\<lambda>r. fst r = label) rs then rs
      else rs @ [(label, priority)])"

definition tightTransferLabel :: "ConnectionMetrics \<Rightarrow> string" where
  "tightTransferLabel m =
     showInt (the (minTransferMinutes m)) @ '' min transfer''
       @ (if truthy (transferStation m) then '' at '' @ the (transferStation m) else [])"

text \<open>\<open>connection.weather?.reasons?.length\<close> is not zero: the first label is there.\<close>

definition topWeatherReason :: "Connection \<Rightarrow> string option" where
  "topWeatherReason c =
     (case weather c of
        None \<Rightarrow> None
      | Some wi \<Rightarrow> (case weatherReasons wi of
                     None \<Rightarrow> None
                   | Some [] \<Rightarrow> None
                   | Some (l # _) \<Rightarrow> Some l))"

definition hasPeakTime :: "Connection \<Rightarrow> bool" where
  "hasPeakTime c =
     (case reliability c of
        None \<Rightarrow> False
      | Some r \<Rightarrow> (case reasonCodes r of
                    None \<Rightarrow> False
                  | Some codes \<Rightarrow> list_ex (\<lambda>code. code = ''peak_time'') codes))"

text \<open>The candidates with their priorities, in the order the code adds them.\<close>

definition reasonCandidates ::
  "Connection \<Rightarrow> ConnectionMetrics \<Rightarrow> DecisionPreferences option \<Rightarrow> (string \<times> nat) list" where
  "reasonCandidates c m prefs =
     (let r1 = (if minTransferMinutes m \<noteq> None \<and> the (minTransferMinutes m) < 8
                then addReason (tightTransferLabel m) 1 [] else []);
          r2 = (if delayMinutesTotal m > 0
                then addReason (''current delay +'' @ showInt (delayMinutesTotal m) @ '' min'') 2 r1
                else r1);
          weatherCondition = getWeatherConditionLabel (weather c);
          r3 = (if truthy weatherCondition \<and> exposureMinutes m > 0
                then addReason (the weatherCondition @ '' + '' @ showInt (exposureMinutes m)
                                  @ '' min exposed'') 3 r2
                else (case topWeatherReason c of
                        Some l \<Rightarrow> addReason l 4 r2
                      | None \<Rightarrow> r2));
          walkingThreshold = (if flagOn prefs preferLowWalking then 1 else 6);
          r5 = (if walkingMinutes m \<ge> walkingThreshold
                then addReason (showInt (walkingMinutes m) @ '' min walk'') 5 r3 else r3);
          r6 = (if transfersCount c > 0
                then addReason (showInt (transfersCount c) @ '' transfer''
                                  @ (if transfersCount c > 1 then ''s'' else [])) 6 r5
                else r5);
          r7 = (if length (platformChanges m) > 0
                then addReason (showNat (length (platformChanges m)) @ '' platform change''
                                  @ (if length (platformChanges m) > 1 then ''s'' else [])) 7 r6
                else r6);
          r8 = (if hasPeakTime c then addReason ''rush hour'' 8 r7 else r7)
      in r8)"

text \<open>
  \<open>reasons.sort((a, b) => a.priority - b.priority).slice(0, 3)\<close>: the sort is stable.
\<close>

definition selectedReasons ::
  "Connection \<Rightarrow> ConnectionMetrics \<Rightarrow> DecisionPreferences option \<Rightarrow> (string \<times> nat) list" where
  "selectedReasons c m prefs = take 3 (sort_key snd (reasonCandidates c m prefs))"

definition buildReasons ::
  "Connection \<Rightarrow> ConnectionMetrics \<Rightarrow> DecisionPreferences option \<Rightarrow> string list" where
  "buildReasons c m prefs = map fst (selectedReasons c m prefs)"

section \<open>Ranking and the decision summary\<close>

record DecisionContext =
  ctxFrom :: string
  ctxTo :: string
  requestedTimeISO :: string
  isArrivalTime :: bool
  arrivalBufferMinutes :: "int option"
  departureBufferMinutes :: "int option"
  preferences :: "DecisionPreferences option"

record Alerts =
  delays :: "string list"
  platformChangeAlerts :: "string list"

record DecisionOption =
  optId :: string
  rank :: nat
  label :: string
  optDepartureTime :: string
  optArrivalTime :: string
  optDurationMinutes :: int
  optTransfersCount :: int
  optMinTransferMinutes :: "int option"
  optWalkingMinutes :: int
  optTransferWaitMinutes :: int
  optExposureMinutes :: int
  optRisk :: Risk
  reasons :: "string list"
  suggestedDepartureTime :: string
  suggestedLeaveByTime :: "string option"
  optArrivalBufferMinutes :: "int option"
  alerts :: Alerts
  optWeather :: "(risk_level \<times> string option) option"

record DecisionSummary =
  echo :: DecisionContext
  constraints :: DecisionPreferences
  constraintNote :: "string option"
  options :: "DecisionOption list"
  recommendedOptionId :: "string option"
  summaryText :: string
  dataCoverage :: "bool \<times> bool \<times> bool \<times> bool"

definition formatTime :: "host \<Rightarrow> string \<Rightarrow> string" where
  "formatTime H isoStr =
     (if isoStr = [] then ''--:--''
      else (case getTime H isoStr of None \<Rightarrow> ''--:--'' | Some t \<Rightarrow> toLocaleTimeString H t))"

text \<open>
  \<open>subtractMinutes\<close>: an unparseable time stamp is returned as it is; otherwise the
  date is moved and printed by \<open>toISOString\<close>, which throws when the moved date is
  out of range.
\<close>

definition subtractMinutes :: "host \<Rightarrow> string \<Rightarrow> int \<Rightarrow> error + string" where
  "subtractMinutes H isoStr minutes =
     (case getTime H isoStr of
        None \<Rightarrow> Inr isoStr
      | Some t \<Rightarrow> (case minutesEarlierISO H t minutes of
                     None \<Rightarrow> Inl RangeError
                   | Some s \<Rightarrow> Inr s))"

text \<open>\<open>Math.max(...xs)\<close> on a list that is not empty.\<close>

fun mathMax :: "int list \<Rightarrow> int" where
  "mathMax [] = 0"
| "mathMax [x] = x"
| "mathMax (x # y # ys) = max x (mathMax (y # ys))"

text \<open>\<open>OPTION_LABELS[index] ? `Option ${OPTION_LABELS[index]}` : `Option ${index + 1}`\<close>\<close>

definition optionLabel :: "nat \<Rightarrow> string" where
  "optionLabel index =
     (if index < 26 then ''Option '' @ [char_of (65 + index)]
      else ''Option '' @ showNat (index + 1))"

text \<open>
  \<open>Math.max(0, Math.floor(preferences.maxTransfers))\<close> when a limit is requested.
\<close>

definition maxTransfersOf :: "DecisionContext \<Rightarrow> int option" where
  "maxTransfersOf ctx =
     (case preferences ctx of
        None \<Rightarrow> None
      | Some p \<Rightarrow> (case maxTransfers p of
                    None \<Rightarrow> None
                  | Some m \<Rightarrow> Some (max 0 \<lfloor>m\<rfloor>)))"

definition computed :: "host \<Rightarrow> Connection list \<Rightarrow> (Connection \<times> ConnectionMetrics) list" where
  "computed H connections = map (\<lambda>c. (c, buildMetrics H (legs c))) connections"

text \<open>The candidates after the transfer filter, before the filter is given up.\<close>

definition withinLimit ::
  "int option \<Rightarrow> (Connection \<times> ConnectionMetrics) list \<Rightarrow> (Connection \<times> ConnectionMetrics) list" where
  "withinLimit limit items =
     (case limit of
        None \<Rightarrow> items
      | Some n \<Rightarrow> filter (\<lambda>item. transfersCount (fst item) \<le> n) items)"

definition filtered ::
  "int option \<Rightarrow> (Connection \<times> ConnectionMetrics) list \<Rightarrow> (Connection \<times> ConnectionMetrics) list" where
  "filtered limit items =
     (if limit \<noteq> None \<and> length (withinLimit limit items) = 0 then items
      else withinLimit limit items)"

definition constraintNoteOf ::
  "int option \<Rightarrow> (Connection \<times> ConnectionMetrics) list \<Rightarrow> string option" where
  "constraintNoteOf limit items =
     (if limit \<noteq> None \<and> length (withinLimit limit items) = 0
      then Some (''No routes within '' @ showInt (the limit) @ '' transfer''
                   @ (if the limit = 1 then [] else ''s'') @ ''; showing closest matches.'')
      else None)"

record Weights =
  wRisk :: real
  wDuration :: real
  wTransfer :: real
  wWalking :: real
  wExposure :: real

definition weightsOf :: "bool \<Rightarrow> bool \<Rightarrow> bool \<Rightarrow> Weights" where
  "weightsOf lowWalking minimizeOutdoor isWet =
     \<lparr>wRisk = 0.55, wDuration = 0.2, wTransfer = 0.1,
      wWalking = (if lowWalking then 0.1 else 0),
      wExposure = (if minimizeOutdoor \<and> isWet then 0.1 else 0)\<rparr>"

text \<open>\<open>Object.values(weights).reduce((sum, weight) => sum + weight, 0)\<close>\<close>

definition weightSum :: "Weights \<Rightarrow> real" where
  "weightSum w = foldl (\<lambda>sum weight. sum + weight) 0 [wRisk w, wDuration w, wTransfer w, wWalking w, wExposure w]"

text \<open>
  The decision score of one candidate among the candidates that are ranked. The wetness
  test is a parameter, so that the score of the code (\<open>isWetWeather\<close>) can be compared
  with the score under another reading of "wet".
\<close>

definition decisionScoreWith ::
  "(WeatherInsight option \<Rightarrow> bool) \<Rightarrow> DecisionPreferences option
     \<Rightarrow> (Connection \<times> ConnectionMetrics) list \<Rightarrow> Connection \<times> ConnectionMetrics \<Rightarrow> real" where
  "decisionScoreWith wet prefs items item =
     (let durations = map (\<lambda>i. durationMinutes (fst i)) items;
          transfers = map (\<lambda>i. transfersCount (fst i)) items;
          walking = map (\<lambda>i. walkingMinutes (snd i)) items;
          exposure = map (\<lambda>i. exposureMinutes (snd i)) items;
          minDuration = mathMin durations;
          maxDuration = mathMax durations;
          maxTransfersObserved = mathMax (1 # transfers);
          maxWalking = mathMax (1 # walking);
          maxExposure = mathMax (1 # exposure);
          connection = fst item;
          metrics = snd item;
          risk = computeRisk connection metrics;
          durationScore = normalize (real_of_int (durationMinutes connection))
                            (real_of_int minDuration) (real_of_int maxDuration);
          transferScore = normalize (real_of_int (transfersCount connection)) 0
                            (real_of_int maxTransfersObserved);
          walkingScore = normalize (real_of_int (walkingMinutes metrics)) 0 (real_of_int maxWalking);
          exposureScore = normalize (real_of_int (exposureMinutes metrics)) 0 (real_of_int maxExposure);
          weights = weightsOf (flagOn prefs preferLowWalking) (flagOn prefs minimizeOutdoorIfRaining)
                      (wet (weather connection))
      in (riskScore risk * wRisk weights
          + durationScore * wDuration weights
          + transferScore * wTransfer weights
          + walkingScore * wWalking weights
          + exposureScore * wExposure weights) / weightSum weights)"

definition decisionScore ::
  "DecisionPreferences option \<Rightarrow> (Connection \<times> ConnectionMetrics) list
     \<Rightarrow> Connection \<times> ConnectionMetrics \<Rightarrow> real" where
  "decisionScore = decisionScoreWith isWetWeather"

text \<open>
  Wet weather as the specification words it: a positive precipitation or snowfall in
  the first forecast sample.
\<close>

text \<open>\<open>weather?.samples\<close>, empty when there is no weather or no sample list.\<close>

definition samplesOf :: "WeatherInsight option \<Rightarrow> WeatherSample list" where
  "samplesOf w =
     (case w of
        None \<Rightarrow> []
      | Some wi \<Rightarrow> (case samples wi of None \<Rightarrow> [] | Some ss \<Rightarrow> ss))"

definition isWetFirstSample :: "WeatherInsight option \<Rightarrow> bool" where
  "isWetFirstSample w =
     (case w of
        None \<Rightarrow> False
      | Some wi \<Rightarrow>
          (case samples wi of
             None \<Rightarrow> False
           | Some [] \<Rightarrow> False
           | Some (sample # _) \<Rightarrow> precipitation sample > 0 \<or> snowfall sample > 0))"

text \<open>A number used as a condition: defined and not zero.\<close>

definition truthyInt :: "int option \<Rightarrow> bool" where
  "truthyInt n = (case n of None \<Rightarrow> False | Some k \<Rightarrow> k \<noteq> 0)"

text \<open>
  The leave-by time of a connection: computed in departure mode with a departure
  buffer, by \<open>subtractMinutes\<close>, and absent otherwise.
\<close>

definition leaveByTime :: "host \<Rightarrow> DecisionContext \<Rightarrow> Connection \<Rightarrow> (error + string) option" where
  "leaveByTime H ctx connection =
     (if \<not> isArrivalTime ctx \<and> truthyInt (departureBufferMinutes ctx)
      then Some (subtractMinutes H (departureTime connection) (the (departureBufferMinutes ctx)))
      else None)"

text \<open>
  The option of one candidate. Where \<open>subtractMinutes\<close> throws, no option is built:
  \<open>buildDecisionSummary\<close> below ends with the error before it uses the options.
\<close>

definition buildOption ::
  "host \<Rightarrow> DecisionContext \<Rightarrow> nat \<Rightarrow> Connection \<times> ConnectionMetrics \<Rightarrow> DecisionOption" where
  "buildOption H ctx index item =
     (let connection = fst item; metrics = snd item
      in \<lparr>optId = connId connection,
          rank = index + 1,
          label = optionLabel index,
          optDepartureTime = departureTime connection,
          optArrivalTime = arrivalTime connection,
          optDurationMinutes = durationMinutes connection,
          optTransfersCount = transfersCount connection,
          optMinTransferMinutes = minTransferMinutes metrics,
          optWalkingMinutes = walkingMinutes metrics,
          optTransferWaitMinutes = transferWaitMinutes metrics,
          optExposureMinutes = exposureMinutes metrics,
          optRisk = computeRisk connection metrics,
          reasons = buildReasons connection metrics (preferences ctx),
          suggestedDepartureTime = departureTime connection,
          suggestedLeaveByTime =
            (case leaveByTime H ctx connection of
               Some (Inr s) \<Rightarrow> Some s
             | _ \<Rightarrow> None),
          optArrivalBufferMinutes =
            (if isArrivalTime ctx \<and> requestedTimeISO ctx \<noteq> []
             then Some (minutesBetween H (Some (arrivalTime connection)) (Some (requestedTimeISO ctx)))
             else None),
          alerts = \<lparr>delays = delayAlerts metrics, platformChangeAlerts = platformChanges metrics\<rparr>,
          optWeather =
            (case weather connection of
               None \<Rightarrow> None
             | Some wi \<Rightarrow> Some (weatherLevel wi, topWeatherReason connection))\<rparr>)"

text \<open>\<open>filtered.map(({ connection, metrics }, index) => ...)\<close>: option and decision score.\<close>

definition optionsWithScore ::
  "host \<Rightarrow> DecisionContext \<Rightarrow> (Connection \<times> ConnectionMetrics) list \<Rightarrow> (DecisionOption \<times> real) list" where
  "optionsWithScore H ctx items =
     map (\<lambda>(index, item). (buildOption H ctx index item, decisionScore (preferences ctx) items item))
       (enumerate 0 items)"

text \<open>The rank and the label after the sort.\<close>

definition relabel :: "(DecisionOption \<times> real) list \<Rightarrow> DecisionOption list" where
  "relabel entries =
     map (\<lambda>(index, entry). (fst entry)\<lparr>rank := index + 1, label := optionLabel index\<rparr>)
       (enumerate 0 entries)"

definition showLevel :: "risk_level \<Rightarrow> string" where
  "showLevel l = (case l of Low \<Rightarrow> ''low'' | Medium \<Rightarrow> ''medium'' | High \<Rightarrow> ''high'')"

definition formatOptionLine :: "host \<Rightarrow> DecisionOption \<Rightarrow> DecisionContext \<Rightarrow> string" where
  "formatOptionLine H option ctx =
     (let transferLabel =
            (if optTransfersCount option = 0 then ''direct''
             else showInt (optTransfersCount option) @ '' transfer''
                    @ (if optTransfersCount option > 1 then ''s'' else []));
          connectionPart =
            (if optMinTransferMinutes option \<noteq> None \<and> optTransfersCount option > 0
             then '', '' @ showInt (the (optMinTransferMinutes option)) @ '' min connection''
             else []);
          reasonsPart =
            (if length (reasons option) \<noteq> 0 then '' ('' @ join '', '' (reasons option) @ '')'' else []);
          bufferNote =
            (if isArrivalTime ctx \<and> optArrivalBufferMinutes option \<noteq> None
                \<and> the (optArrivalBufferMinutes option) > 0
             then '' Buffer: '' @ showInt (the (optArrivalBufferMinutes option)) @ '' min.''
             else []);
          leaveByNote =
            (if \<not> isArrivalTime ctx \<and> truthy (suggestedLeaveByTime option)
             then '' Leave by '' @ formatTime H (the (suggestedLeaveByTime option)) @ ''.''
             else []);
          riskText = toFixed2 H (riskScore (optRisk option))
      in trim (label option @ '': '' @ formatTime H (optDepartureTime option) @ '' -> ''
                 @ formatTime H (optArrivalTime option) @ '' ('' @ showInt (optDurationMinutes option)
                 @ '' min), '' @ transferLabel @ connectionPart @ ''. Risk: ''
                 @ showLevel (riskLevel (optRisk option)) @ '' ('' @ riskText @ '')'' @ reasonsPart
                 @ ''.'' @ bufferNote @ leaveByNote))"

definition constraintParts :: "host \<Rightarrow> DecisionContext \<Rightarrow> string list" where
  "constraintParts H ctx =
     (if isArrivalTime ctx
      then [''Arrive by '' @ formatTime H (requestedTimeISO ctx)]
             @ (if truthyInt (arrivalBufferMinutes ctx)
                then [''buffer '' @ showInt (the (arrivalBufferMinutes ctx)) @ '' min''] else [])
      else [''Depart around '' @ formatTime H (requestedTimeISO ctx)]
             @ (if truthyInt (departureBufferMinutes ctx)
                then [''leave '' @ showInt (the (departureBufferMinutes ctx)) @ '' min early''] else []))
     @ (case preferences ctx of
          None \<Rightarrow> []
        | Some p \<Rightarrow>
            (case maxTransfers p of
               None \<Rightarrow> []
             | Some m \<Rightarrow> [''max '' @ numberToString H m @ '' transfer'' @ (if m = 1 then [] else ''s'')]))
     @ (if flagOn (preferences ctx) preferLowWalking then [''prefer low walking''] else [])
     @ (if flagOn (preferences ctx) minimizeOutdoorIfRaining then [''minimize outdoor if raining''] else [])"

text \<open>The lines for the first three options; the first one is marked as the best.\<close>

definition optionLines :: "host \<Rightarrow> DecisionContext \<Rightarrow> DecisionOption list \<Rightarrow> string list" where
  "optionLines H ctx opts =
     map (\<lambda>(index, option).
            formatOptionLine H (option\<lparr>label := label option @ (if index = 0 then '' (best)'' else [])\<rparr>) ctx)
       (enumerate 0 (take 3 opts))"

definition topOptionLines :: "host \<Rightarrow> DecisionContext \<Rightarrow> DecisionOption \<Rightarrow> string list" where
  "topOptionLines H ctx topOption =
     (if isArrivalTime ctx
      then [''Suggested departure: '' @ formatTime H (optDepartureTime topOption)
              @ (if truthyInt (optArrivalBufferMinutes topOption)
                    \<and> the (optArrivalBufferMinutes topOption) > 0
                 then '', buffer '' @ showInt (the (optArrivalBufferMinutes topOption)) @ '' min''
                 else [])
              @ ''.'']
      else if truthyInt (departureBufferMinutes ctx) \<and> truthy (suggestedLeaveByTime topOption)
      then [''Suggested departure: leave by ''
              @ formatTime H (the (suggestedLeaveByTime topOption)) @ ''.'']
      else [])
     @ (let alertParts =
              (if length (delays (alerts topOption)) \<noteq> 0
               then [''delays: '' @ join '', '' (delays (alerts topOption))] else [])
              @ (if length (platformChangeAlerts (alerts topOption)) \<noteq> 0
                 then [''platform changes: '' @ join '', '' (platformChangeAlerts (alerts topOption))]
                 else [])
        in if length alertParts \<noteq> 0 then [''Live alerts: '' @ join ''; '' alertParts @ ''.''] else [])"

definition buildSummaryText ::
  "host \<Rightarrow> DecisionOption list \<Rightarrow> DecisionContext \<Rightarrow> string option \<Rightarrow> string" where
  "buildSummaryText H opts ctx note =
     (case opts of
        [] \<Rightarrow> ''No connections found from '' @ ctxFrom ctx @ '' to '' @ ctxTo ctx @ ''.''
      | topOption # _ \<Rightarrow>
          join [LF]
            ([join ''; '' (constraintParts H ctx)]
             @ (if truthy note then [the note] else [])
             @ optionLines H ctx opts
             @ topOptionLines H ctx topOption))"

text \<open>\<open>context.preferences || {}\<close>\<close>

definition constraintsOf :: "DecisionContext \<Rightarrow> DecisionPreferences" where
  "constraintsOf ctx =
     (case preferences ctx of
        None \<Rightarrow> \<lparr>maxTransfers = None, preferLowWalking = None, minimizeOutdoorIfRaining = None\<rparr>
      | Some p \<Rightarrow> p)"

text \<open>The summary object, from the ranked options and the note.\<close>

definition assemble ::
  "host \<Rightarrow> DecisionContext \<Rightarrow> string option \<Rightarrow> DecisionOption list \<Rightarrow> DecisionSummary" where
  "assemble H ctx note opts =
     \<lparr>echo = ctx,
      constraints = constraintsOf ctx,
      constraintNote = note,
      options = opts,
      recommendedOptionId = (case opts of [] \<Rightarrow> None | topOption # _ \<Rightarrow> Some (optId topOption)),
      summaryText = buildSummaryText H opts ctx note,
      dataCoverage = (True, True, False, False)\<rparr>"

text \<open>
  The candidates that are ranked, for a connection list that is not empty.
\<close>

definition rankedItems :: "host \<Rightarrow> Connection list \<Rightarrow> DecisionContext \<Rightarrow> (Connection \<times> ConnectionMetrics) list" where
  "rankedItems H connections ctx = filtered (maxTransfersOf ctx) (computed H connections)"

text \<open>
  \<open>buildDecisionSummary\<close>. \<open>Array.prototype.sort\<close> with the comparator
  \<open>a.decisionScore - b.decisionScore\<close> is a stable sort on the decision score. The
  callback that builds the options throws at the first ranked connection whose leave-by
  date is out of range, and the exception leaves \<open>buildDecisionSummary\<close>; the callback
  has no other effect, so the result is the error exactly when some ranked connection
  has such a leave-by date.
\<close>

definition buildDecisionSummary ::
  "host \<Rightarrow> Connection list \<Rightarrow> DecisionContext \<Rightarrow> error + DecisionSummary" where
  "buildDecisionSummary H connections ctx =
     (if length connections = 0
      then Inr \<lparr>echo = ctx,
                constraints = constraintsOf ctx,
                constraintNote = None,
                options = [],
                recommendedOptionId = None,
                summaryText = ''No connections found from '' @ ctxFrom ctx @ '' to '' @ ctxTo ctx @ ''.'',
                dataCoverage = (True, True, False, False)\<rparr>
      else
        (let items = rankedItems H connections ctx;
             note = constraintNoteOf (maxTransfersOf ctx) (computed H connections);
             sorted' = sort_key snd (optionsWithScore H ctx items)
         in if list_ex (\<lambda>item. leaveByTime H ctx (fst item) = Some (Inl RangeError)) items
            then Inl RangeError
            else Inr (assemble H ctx note (relabel sorted'))))"

text \<open>
  The ranked candidates as the specification words the transfer filter: the connections
  whose transfer count is at most the requested limit, and all connections when there
  is none.
\<close>

definition rankedItems_spec :: "host \<Rightarrow> Connection list \<Rightarrow> real \<Rightarrow> (Connection \<times> ConnectionMetrics) list" where
  "rankedItems_spec H connections requested =
     (if filter (\<lambda>item. real_of_int (transfersCount (fst item)) \<le> requested) (computed H connections) = []
      then computed H connections
      else filter (\<lambda>item. real_of_int (transfersCount (fst item)) \<le> requested) (computed H connections))"

section \<open>Example inputs\<close>

definition exConnection :: Connection where
  "exConnection =
     \<lparr>connId = ''c0'', departureTime = '''', arrivalTime = '''', durationMinutes = 60,
      transfersCount = 1, legs = [], reliabilityScore = None, reliability = None, weather = None\<rparr>"

definition exMetrics :: ConnectionMetrics where
  "exMetrics =
     \<lparr>walkingMinutes = 6, transferWaitMinutes = 5, minTransferMinutes = Some 5,
      transferStation = Some ''Bern'', exposureMinutes = 11, delayMinutesTotal = 0,
      delayAlerts = [], platformChanges = []\<rparr>"

definition exHost :: host where
  "exHost =
     \<lparr>getTime = (\<lambda>s. if s = ''t0'' then Some 0
                     else if s = ''t5'' then Some 300000
                     else if s = ''t10'' then Some 600000
                     else if s = ''t16'' then Some 960000
                     else if s = ''t30'' then Some 1800000
                     else None),
      toLocaleTimeString = (\<lambda>t. showInt (t div 60000)),
      minutesEarlierISO = (\<lambda>t m. if \<bar>t - m * 60000\<bar> \<le> 8640000000000000
                                  then Some (showInt (t div 60000 - m)) else None),
      toFixed2 = (\<lambda>r. showInt \<lfloor>r * 100\<rfloor>),
      numberToString = (\<lambda>r. showInt \<lfloor>r\<rfloor>)\<rparr>"

definition mkLeg :: "leg_kind \<Rightarrow> string \<Rightarrow> string \<Rightarrow> string \<Rightarrow> string \<Rightarrow> int option \<Rightarrow> Leg" where
  "mkLeg k a ta b tb d =
     \<lparr>legType = k,
      legFrom = \<lparr>name = a, timePlanned = ta, timeActual = None, platform = None\<rparr>,
      legTo = \<lparr>name = b, timePlanned = tb, timeActual = None, platform = None\<rparr>,
      line = None, delayMinutes = d\<rparr>"

definition exLegs :: "Leg list" where
  "exLegs =
     [mkLeg Ride ''A'' ''t0'' ''B'' ''t10'' (Some 3),
      mkLeg Walk ''B'' ''t10'' ''B2'' ''bad'' None,
      mkLeg Ride ''B2'' ''t16'' ''C'' ''t30'' (Some (- 2)),
      mkLeg Ride ''C'' ''t5'' ''D'' ''t10'' None,
      mkLeg Walk ''D'' ''t0'' ''D2'' ''t5'' None,
      mkLeg Ride ''D2'' ''t10'' ''E'' ''t30'' None]"

definition exRushConnection :: Connection where
  "exRushConnection =
     \<lparr>connId = ''c1'', departureTime = ''t0'', arrivalTime = ''t30'', durationMinutes = 30,
      transfersCount = 1, legs = [], reliabilityScore = Some 0.8,
      reliability = Some \<lparr>score = None, reasonCodes = Some [''transfer'', ''peak_time'']\<rparr>,
      weather = None\<rparr>"

definition exTightMetrics :: ConnectionMetrics where
  "exTightMetrics =
     \<lparr>walkingMinutes = 2, transferWaitMinutes = 5, minTransferMinutes = Some 5,
      transferStation = Some ''Bern'', exposureMinutes = 7, delayMinutesTotal = 0,
      delayAlerts = [], platformChanges = []\<rparr>"

definition exAgencyTxt :: string where
  "exAgencyTxt = ''agency_name'' @ [LF] @ ''SBB'' @ [LF] @ ''BLS''"

definition exQuery :: LineQuery where
  "exQuery = \<lparr>qLineId = Some ''999999'', qCategory = Some ''B'', qNumber = None, qOperator = None\<rparr>"

text \<open>
  A lookup with one route, reached through the trip table, whose short name carries
  blanks, and a query whose line identifier carries blanks too.
\<close>

definition exLineLookup :: GtfsLookup where
  "exLineLookup =
     \<lparr>routes = [''91-1'' \<mapsto> \<lparr>shortName = Some '' S1 '', longName = Some ''Zurich - Zug'',
                             routeType = Some 109, agencyId = Some ''11''\<rparr>],
      trips = [''T1'' \<mapsto> ''91-1''],
      routeShortNameToId = None,
      agencies = [''11'' \<mapsto> ''SBB''],
      defaultAgencyId = None\<rparr>"

definition exLineQuery :: LineQuery where
  "exLineQuery = \<lparr>qLineId = Some '' T1 '', qCategory = Some ''S'', qNumber = Some ''1'', qOperator = None\<rparr>"

definition exWetConnection :: Connection where
  "exWetConnection =
     \<lparr>connId = ''wet'', departureTime = ''t0'', arrivalTime = ''t30'', durationMinutes = 30,
      transfersCount = 0, legs = [mkLeg Walk ''A'' ''t0'' ''B'' ''t10'' None],
      reliabilityScore = None, reliability = None,
      weather = Some \<lparr>samples = Some [\<lparr>precipitation = 0, snowfall = 0, windGusts = 0\<rparr>,
                                      \<lparr>precipitation = 2, snowfall = 0, windGusts = 0\<rparr>],
                       penalty = None, weatherLevel = Low, weatherReasons = None\<rparr>\<rparr>"

definition exWetMetrics :: ConnectionMetrics where
  "exWetMetrics =
     \<lparr>walkingMinutes = 10, transferWaitMinutes = 0, minTransferMinutes = None,
      transferStation = None, exposureMinutes = 10, delayMinutesTotal = 0,
      delayAlerts = [], platformChanges = []\<rparr>"

definition exOutdoorPrefs :: "DecisionPreferences option" where
  "exOutdoorPrefs =
     Some \<lparr>maxTransfers = None, preferLowWalking = None, minimizeOutdoorIfRaining = Some True\<rparr>"

definition exOutdoorContext :: DecisionContext where
  "exOutdoorContext =
     \<lparr>ctxFrom = ''A'', ctxTo = ''B'', requestedTimeISO = ''t0'', isArrivalTime = False,
      arrivalBufferMinutes = None, departureBufferMinutes = None, preferences = exOutdoorPrefs\<rparr>"

definition exDirectConnection :: Connection where
  "exDirectConnection =
     \<lparr>connId = ''d0'', departureTime = '''', arrivalTime = '''', durationMinutes = 75,
      transfersCount = 0, legs = [], reliabilityScore = None, reliability = None, weather = None\<rparr>"

definition exNoMetrics :: ConnectionMetrics where
  "exNoMetrics =
     \<lparr>walkingMinutes = 0, transferWaitMinutes = 0, minTransferMinutes = None,
      transferStation = None, exposureMinutes = 0, delayMinutesTotal = 0,
      delayAlerts = [], platformChanges = []\<rparr>"

definition exNegativeLimitContext :: DecisionContext where
  "exNegativeLimitContext =
     \<lparr>ctxFrom = ''A'', ctxTo = ''B'', requestedTimeISO = ''t0'', isArrivalTime = False,
      arrivalBufferMinutes = None, departureBufferMinutes = None,
      preferences = Some \<lparr>maxTransfers = Some (- 1), preferLowWalking = None,
                          minimizeOutdoorIfRaining = None\<rparr>\<rparr>"

text \<open>
  Two departure-mode contexts with a transfer limit of zero: one leaves five minutes
  early, the other so early that the leave-by date is out of the range of dates.
\<close>

definition exBufferContext :: DecisionContext where
  "exBufferContext =
     \<lparr>ctxFrom = ''A'', ctxTo = ''B'', requestedTimeISO = ''t0'', isArrivalTime = False,
      arrivalBufferMinutes = None, departureBufferMinutes = Some 5,
      preferences = Some \<lparr>maxTransfers = Some 0, preferLowWalking = None,
                          minimizeOutdoorIfRaining = None\<rparr>\<rparr>"

definition exOverflowContext :: DecisionContext where
  "exOverflowContext =
     \<lparr>ctxFrom = ''A'', ctxTo = ''B'', requestedTimeISO = ''t0'', isArrivalTime = False,
      arrivalBufferMinutes = None, departureBufferMinutes = Some 144000000001,
      preferences = Some \<lparr>maxTransfers = Some 0, preferLowWalking = None,
                          minimizeOutdoorIfRaining = None\<rparr>\<rparr>"

text \<open>
  A connection whose reliability and weather penalty are the doubles written
  \<open>0.55\<close> and \<open>0.09\<close>, with metrics of two transfers of 7 and 13 minutes.
\<close>

definition exDoubleConnection :: Connection where
  "exDoubleConnection =
     \<lparr>connId = ''v'', departureTime = ''t0'', arrivalTime = ''t30'', durationMinutes = 30,
      transfersCount = 2, legs = [], reliabilityScore = Some (nearestDouble 0.9),
      reliability = Some \<lparr>score = Some (nearestDouble 0.55), reasonCodes = None\<rparr>,
      weather = Some \<lparr>samples = None, penalty = Some (nearestDouble 0.09),
                       weatherLevel = Low, weatherReasons = None\<rparr>\<rparr>"

definition exDoubleMetrics :: ConnectionMetrics where
  "exDoubleMetrics =
     \<lparr>walkingMinutes = 0, transferWaitMinutes = 20, minTransferMinutes = Some 7,
      transferStation = Some ''Bern'', exposureMinutes = 20, delayMinutesTotal = 0,
      delayAlerts = [], platformChanges = []\<rparr>"




section \<open>Auxiliary facts\<close>

lemma minutesBetween_nonneg: "0 \<le> minutesBetween H a b"
  by (simp add: minutesBetween_def split: option.splits)

lemma foldl_plus_sum: "foldl (\<lambda>s x. s + f x) a xs = (a::int) + sum_list (map f xs)"
  by (induction xs arbitrary: a) simp_all

lemma waits_nonneg: "w \<in> set (transferWaitMinutesList H rs) \<Longrightarrow> 0 \<le> w"
  by (induction H rs rule: transferWaitMinutesList.induct) (auto simp: minutesBetween_nonneg)



lemma delayLoop_nonneg: "0 \<le> t \<Longrightarrow> 0 \<le> fst (delayLoop ls (t, al))"
  by (induction ls arbitrary: t al) (auto split: option.splits)

lemma mathMin_Min: "xs \<noteq> [] \<Longrightarrow> mathMin xs = Min (set xs)"
  by (induction xs rule: mathMin.induct) simp_all




lemma bm_sum:
  "transferWaitMinutes (buildMetrics H ls) =
     sum_list (transferWaitMinutesList H (filter (\<lambda>leg. legType leg = Ride) ls))"
  using foldl_plus_sum [of "\<lambda>x. x" 0 "transferWaitMinutesList H (filter (\<lambda>leg. legType leg = Ride) ls)"]
  by (simp add: buildMetrics_def Let_def)

lemma bm_walking:
  "walkingMinutes (buildMetrics H ls) =
     sum_list (map (legMinutes H) (filter (\<lambda>leg. legType leg = Walk) ls))"
  using foldl_plus_sum [of "legMinutes H" 0 "filter (\<lambda>leg. legType leg = Walk) ls"]
  by (simp add: buildMetrics_def Let_def)

lemma bm_exposure:
  "exposureMinutes (buildMetrics H ls) =
     walkingMinutes (buildMetrics H ls) + transferWaitMinutes (buildMetrics H ls)"
  by (simp add: buildMetrics_def Let_def)

lemma bm_delay:
  "delayMinutesTotal (buildMetrics H ls) =
     fst (delayLoop (filter (\<lambda>leg. legType leg = Ride) ls) (0, []))"
  by (simp add: buildMetrics_def Let_def)

lemma bm_min:
  "minTransferMinutes (buildMetrics H ls) =
   (if transferWaitMinutesList H (filter (\<lambda>leg. legType leg = Ride) ls) = [] then None
    else Some (Min (set (transferWaitMinutesList H (filter (\<lambda>leg. legType leg = Ride) ls)))))"
  by (simp add: buildMetrics_def Let_def mathMin_Min)


lemma sum_list_nonneg_int: "(\<And>x. x \<in> set xs \<Longrightarrow> 0 \<le> (x::int)) \<Longrightarrow> 0 \<le> sum_list xs"
  by (induction xs) auto

lemma roundMinutes_nonpos:
  assumes "d \<le> 0"
  shows "roundMinutes d \<le> 0"
proof -
  have "(d + 30000) div 60000 \<le> 30000 div (60000::int)"
    using assms by (intro zdiv_mono1) simp_all
  then show ?thesis
    unfolding roundMinutes_def by simp
qed

lemma minutesBetween_out_of_order:
  assumes "getTime H a = Some ta" "getTime H d = Some td" "td \<le> ta"
  shows "minutesBetween H (Some a) (Some d) = 0"
proof -
  have "roundMinutes (td - ta) \<le> 0"
    using assms(3) by (intro roundMinutes_nonpos) simp
  then show ?thesis
    using assms(1,2) by (simp add: minutesBetween_def max_def)
qed


subsection \<open>The example legs\<close>

lemma mkLeg_sel:
  "legType (mkLeg k a ta b tb d) = k"
  "actualOrPlanned (legFrom (mkLeg k a ta b tb d)) = Some ta"
  "actualOrPlanned (legTo (mkLeg k a ta b tb d)) = Some tb"
  "name (legTo (mkLeg k a ta b tb d)) = b"
  "name (legFrom (mkLeg k a ta b tb d)) = a"
  "platform (legTo (mkLeg k a ta b tb d)) = None"
  "platform (legFrom (mkLeg k a ta b tb d)) = None"
  "delayMinutes (mkLeg k a ta b tb d) = d"
  "line (mkLeg k a ta b tb d) = None"
  by (simp_all add: mkLeg_def actualOrPlanned_def)

lemma exRides:
  "filter (\<lambda>leg. legType leg = Ride) exLegs =
     [mkLeg Ride ''A'' ''t0'' ''B'' ''t10'' (Some 3),
      mkLeg Ride ''B2'' ''t16'' ''C'' ''t30'' (Some (- 2)),
      mkLeg Ride ''C'' ''t5'' ''D'' ''t10'' None,
      mkLeg Ride ''D2'' ''t10'' ''E'' ''t30'' None]"
  by (simp add: exLegs_def mkLeg_sel)

lemma exWalks:
  "filter (\<lambda>leg. legType leg = Walk) exLegs =
     [mkLeg Walk ''B'' ''t10'' ''B2'' ''bad'' None, mkLeg Walk ''D'' ''t0'' ''D2'' ''t5'' None]"
  by (simp add: exLegs_def mkLeg_sel)

lemma exTimes:
  "getTime exHost ''t5'' = Some 300000"
  "getTime exHost ''t30'' = Some 1800000"
  "getTime exHost ''bad'' = None"
  by (simp_all add: exHost_def)

lemma exMinutes:
  "minutesBetween exHost (Some ''t10'') (Some ''t16'') = 6"
  "minutesBetween exHost (Some ''t30'') (Some ''t5'') = 0"
  "minutesBetween exHost (Some ''t10'') (Some ''t10'') = 0"
  "minutesBetween exHost (Some ''t10'') (Some ''bad'') = 0"
  "minutesBetween exHost (Some ''t0'') (Some ''t5'') = 5"
  by (simp_all add: exHost_def minutesBetween_def roundMinutes_def)

lemma exWaits:
  "transferWaitMinutesList exHost (filter (\<lambda>leg. legType leg = Ride) exLegs) = [6, 0, 0]"
  unfolding exRides by (simp add: mkLeg_sel exMinutes)

lemma exLeast: "(LEAST i. i < length [6, 0, 0::int] \<and> [6, 0, 0::int] ! i = Min (set [6, 0, 0])) = 1"
  by (rule Least_equality) (auto simp: nth_Cons split: nat.splits)

subsection \<open>Reasons\<close>

lemma addReason_distinct:
  "distinct (map fst rs) \<Longrightarrow> distinct (map fst (addReason l p rs))"
  by (auto simp: addReason_def list_ex_iff)

lemma addReason_sorted:
  "sorted (map snd rs) \<Longrightarrow> \<forall>r\<in>set rs. snd r \<le> p \<Longrightarrow> sorted (map snd (addReason l p rs))"
  by (auto simp: addReason_def sorted_append)

lemma addReason_bound:
  "\<forall>r\<in>set rs. snd r \<le> p \<Longrightarrow> \<forall>r\<in>set (addReason l p rs). snd r \<le> p"
  by (auto simp: addReason_def)

lemma addReason_hd:
  "rs \<noteq> [] \<Longrightarrow> addReason l p rs \<noteq> [] \<and> hd (addReason l p rs) = hd rs"
  by (auto simp: addReason_def)

text \<open>
  What every step of \<open>reasonCandidates\<close> keeps: the labels are distinct, the priorities
  ascend and are bounded by the step's priority, and a first entry stays first.
\<close>

lemma addReason_step:
  assumes "distinct (map fst rs) \<and> sorted (map snd rs) \<and> (\<forall>r\<in>set rs. snd r \<le> k) \<and> (e \<longrightarrow> rs \<noteq> [] \<and> hd rs = x)"
    and "k \<le> p"
  shows "distinct (map fst (addReason l p rs)) \<and> sorted (map snd (addReason l p rs))
     \<and> (\<forall>r\<in>set (addReason l p rs). snd r \<le> p) \<and> (e \<longrightarrow> addReason l p rs \<noteq> [] \<and> hd (addReason l p rs) = x)"
proof -
  from assms have b: "\<forall>r\<in>set rs. snd r \<le> p" by auto
  from assms b show ?thesis
    using addReason_distinct [of rs l p] addReason_sorted [of rs p l] addReason_bound [of rs p l]
      addReason_hd [of rs l p]
    by blast
qed

lemma keep_step:
  assumes "distinct (map fst rs) \<and> sorted (map snd rs) \<and> (\<forall>r\<in>set rs. snd r \<le> k) \<and> (e \<longrightarrow> rs \<noteq> [] \<and> hd rs = x)"
    and "k \<le> (p::nat)"
  shows "distinct (map fst rs) \<and> sorted (map snd rs) \<and> (\<forall>r\<in>set rs. snd r \<le> p) \<and> (e \<longrightarrow> rs \<noteq> [] \<and> hd rs = x)"
  using assms by auto

lemma tightTransferLabel_nonempty: "tightTransferLabel m \<noteq> []"
  by (simp add: tightTransferLabel_def)

lemma reasonCandidates_inv:
  "distinct (map fst (reasonCandidates c m prefs))
     \<and> sorted (map snd (reasonCandidates c m prefs))
     \<and> (\<forall>r\<in>set (reasonCandidates c m prefs). snd r \<le> 8)
     \<and> (minTransferMinutes m \<noteq> None \<and> the (minTransferMinutes m) < 8 \<longrightarrow> reasonCandidates c m prefs \<noteq> []
           \<and> hd (reasonCandidates c m prefs) = (tightTransferLabel m, 1))"
proof -
  let ?x = "(tightTransferLabel m, 1::nat)"
  let ?I = "\<lambda>k rs. distinct (map fst rs) \<and> sorted (map snd rs) \<and> (\<forall>r\<in>set rs. snd r \<le> (k::nat))
               \<and> (minTransferMinutes m \<noteq> None \<and> the (minTransferMinutes m) < 8 \<longrightarrow> rs \<noteq> [] \<and> hd rs = ?x)"
  define r1 where "r1 = (if minTransferMinutes m \<noteq> None \<and> the (minTransferMinutes m) < 8
                then addReason (tightTransferLabel m) 1 [] else [])"
  define r2 where "r2 = (if delayMinutesTotal m > 0
                then addReason (''current delay +'' @ showInt (delayMinutesTotal m) @ '' min'') 2 r1
                else r1)"
  define r3 where "r3 = (if truthy (getWeatherConditionLabel (weather c)) \<and> exposureMinutes m > 0
                then addReason (the (getWeatherConditionLabel (weather c)) @ '' + '' @ showInt (exposureMinutes m)
                                  @ '' min exposed'') 3 r2
                else (case topWeatherReason c of
                        Some l \<Rightarrow> addReason l 4 r2
                      | None \<Rightarrow> r2))"
  define r5 where "r5 = (if walkingMinutes m \<ge> (if flagOn prefs preferLowWalking then 1 else 6)
                then addReason (showInt (walkingMinutes m) @ '' min walk'') 5 r3 else r3)"
  define r6 where "r6 = (if transfersCount c > 0
                then addReason (showInt (transfersCount c) @ '' transfer''
                                  @ (if transfersCount c > 1 then ''s'' else [])) 6 r5
                else r5)"
  define r7 where "r7 = (if length (platformChanges m) > 0
                then addReason (showNat (length (platformChanges m)) @ '' platform change''
                                  @ (if length (platformChanges m) > 1 then ''s'' else [])) 7 r6
                else r6)"
  define r8 where "r8 = (if hasPeakTime c then addReason ''rush hour'' 8 r7 else r7)"
  have eq: "reasonCandidates c m prefs = r8"
    unfolding reasonCandidates_def r8_def r7_def r6_def r5_def r3_def r2_def r1_def Let_def ..
  have i1: "?I 1 r1"
    unfolding r1_def by (simp add: addReason_def tightTransferLabel_nonempty)
  have i2: "?I 2 r2"
    unfolding r2_def using addReason_step [OF i1, of 2] keep_step [OF i1, of 2] by simp
  have i3: "?I 4 r3"
  proof (cases "truthy (getWeatherConditionLabel (weather c)) \<and> exposureMinutes m > 0")
    case True
    have "r3 = addReason (the (getWeatherConditionLabel (weather c)) @ '' + ''
                 @ showInt (exposureMinutes m) @ '' min exposed'') 3 r2"
      unfolding r3_def by (rule if_P [OF True])
    then have "?I 3 r3" using addReason_step [OF i2, of 3] by simp
    then show ?thesis by (rule keep_step) simp
  next
    case False
    have "r3 = (case topWeatherReason c of Some l \<Rightarrow> addReason l 4 r2 | None \<Rightarrow> r2)"
      unfolding r3_def by (rule if_not_P [OF False])
    then show ?thesis
      using addReason_step [OF i2, of 4] keep_step [OF i2, of 4]
      by (cases "topWeatherReason c") simp_all
  qed
  have i5: "?I 5 r5"
    unfolding r5_def using addReason_step [OF i3, of 5] keep_step [OF i3, of 5] by simp
  have i6: "?I 6 r6"
    unfolding r6_def using addReason_step [OF i5, of 6] keep_step [OF i5, of 6] by simp
  have i7: "?I 7 r7"
    unfolding r7_def using addReason_step [OF i6, of 7] keep_step [OF i6, of 7] by simp
  have i8: "?I 8 r8"
    unfolding r8_def using addReason_step [OF i7, of 8] keep_step [OF i7, of 8] by simp
  from i8 show ?thesis unfolding eq .
qed


lemma sorted_take_nat: "sorted xs \<Longrightarrow> sorted (take n (xs::nat list))"
  by (metis append_take_drop_id sorted_append)

lemma selectedReasons_take: "selectedReasons c m prefs = take 3 (reasonCandidates c m prefs)"
  using reasonCandidates_inv [of c m prefs]
  by (simp add: selectedReasons_def sort_key_id_if_sorted)

lemma exShow: "showInt 5 = ''5''" "showInt 1 = ''1''" "showInt 2 = ''2''"
  by code_simp+

lemma exCandidates:
  "reasonCandidates exRushConnection exTightMetrics None =
     [(''5 min transfer at Bern'', 1), (''1 transfer'', 6), (''rush hour'', 8)]"
  by (simp add: reasonCandidates_def exRushConnection_def exTightMetrics_def Let_def addReason_def
      tightTransferLabel_def exShow getWeatherConditionLabel_def topWeatherReason_def flagOn_def
      hasPeakTime_def)

subsection \<open>Agency rows\<close>

lemma indexOf_None_iff: "indexOf xs x = None \<longleftrightarrow> x \<notin> set xs"
  by (induction xs) auto

lemma agencyRows_no_id:
  assumes "idxId st = None" and "fallbackId st = ''default''" and "0 < i"
    and "agencyTable st = [] \<or> (\<exists>n. agencyTable st = [(''default'', n)])"
  shows "agencyRows rows i st =
     st\<lparr>agencyTable :=
          (if filter (\<lambda>n. n \<noteq> []) (map (\<lambda>row. trim (orElse (atIndex row (idxName st)) [])) rows) = []
           then agencyTable st
           else [(''default'', last (filter (\<lambda>n. n \<noteq> [])
                    (map (\<lambda>row. trim (orElse (atIndex row (idxName st)) [])) rows)))])\<rparr>"
  using assms
proof (induction rows arbitrary: i st)
  case Nil
  then show ?case by simp
next
  case (Cons r rows)
  let ?n = "trim (orElse (atIndex r (idxName st)) [])"
  show ?case
  proof (cases "?n = []")
    case True
    then have s: "agencyOnRow r i st = st"
      using Cons.prems(3) by (simp add: agencyOnRow_def Let_def)
    show ?thesis
      using Cons.IH [of st "Suc i"] Cons.prems True by (simp add: s)
  next
    case False
    let ?st' = "st\<lparr>agencyTable := [(''default'', ?n)], fallbackId := ''default''\<rparr>"
    have t: "setKey ''default'' ?n (agencyTable st) = [(''default'', ?n)]"
      using Cons.prems(4) by auto
    have s: "agencyOnRow r i st = ?st'"
      using Cons.prems(1,2,3) False by (simp add: agencyOnRow_def Let_def t)
    have "agencyRows rows (Suc i) ?st' =
       ?st'\<lparr>agencyTable :=
          (if filter (\<lambda>n. n \<noteq> []) (map (\<lambda>row. trim (orElse (atIndex row (idxName ?st')) [])) rows) = []
           then agencyTable ?st'
           else [(''default'', last (filter (\<lambda>n. n \<noteq> [])
                    (map (\<lambda>row. trim (orElse (atIndex row (idxName ?st')) [])) rows)))])\<rparr>"
      using Cons.prems(1) by (intro Cons.IH) simp_all
    then show ?thesis
      using False Cons.prems(2) by (simp add: s)
  qed
qed

lemma exAgencyRows: "forEachCsvRow exAgencyTxt = [[''agency_name''], [''SBB''], [''BLS'']]"
  by (simp add: exAgencyTxt_def forEachCsvRow_def flushRow_def LF_def CR_def dquote_def comma_def)

lemma exTrim: "trim ''SBB'' = ''SBB''" "trim ''BLS'' = ''BLS''" "trim ''default'' = ''default''"
  by code_simp+

subsection \<open>Line resolver\<close>

lemma trimmedLineId_nonempty: "trimmedLineId q = Some t \<Longrightarrow> t \<noteq> []"
  by (auto simp: trimmedLineId_def split: option.splits if_splits)

lemma lookupKey_empty_iff: "lookupKey q = [] \<longleftrightarrow> trimmedLineId q = None \<and> fallbackDisplay q = []"
  using trimmedLineId_nonempty [of q]
  by (cases "trimmedLineId q") (auto simp: lookupKey_def)

subsection \<open>Decision score\<close>

lemma isWetWeather_iff:
  "isWetWeather w \<longleftrightarrow> (\<exists>s\<in>set (samplesOf w). precipitation s > 0 \<or> snowfall s > 0)"
  by (auto simp: isWetWeather_def samplesOf_def list_ex_iff split: option.splits)

lemma weightSum_weightsOf:
  "weightSum (weightsOf a b c) = 0.55 + 0.2 + 0.1 + (if a then 0.1 else 0) + (if b \<and> c then 0.1 else 0)"
  by (simp add: weightSum_def weightsOf_def)

lemma optionsWithScore_scores:
  "map snd (optionsWithScore H ctx items) = map (decisionScore (preferences ctx) items) items"
proof -
  have "map snd (optionsWithScore H ctx items)
      = map (\<lambda>p. decisionScore (preferences ctx) items (snd p)) (enumerate 0 items)"
    by (simp add: optionsWithScore_def split_def)
  also have "\<dots> = map (decisionScore (preferences ctx) items) (map snd (enumerate 0 items))"
    unfolding map_map comp_def ..
  also have "\<dots> = map (decisionScore (preferences ctx) items) items"
    by (simp only: map_snd_enumerate)
  finally show ?thesis .
qed

lemma exWetBuild: "buildMetrics exHost [mkLeg Walk ''A'' ''t0'' ''B'' ''t10'' None] = exWetMetrics"
proof -
  have m: "minutesBetween exHost (Some ''t0'') (Some ''t10'') = 10"
    by (simp add: exHost_def minutesBetween_def roundMinutes_def)
  show ?thesis
    by (simp add: buildMetrics_def Let_def mkLeg_sel legMinutes_def m addPlatformChange_def
        exWetMetrics_def)
qed

lemma exWetComputed: "computed exHost [exWetConnection] = [(exWetConnection, exWetMetrics)]"
proof -
  have "legs exWetConnection = [mkLeg Walk ''A'' ''t0'' ''B'' ''t10'' None]"
    by (simp add: exWetConnection_def)
  then show ?thesis
    by (simp add: computed_def exWetBuild)
qed

lemma exWetRanked:
  "rankedItems exHost [exWetConnection] exOutdoorContext = [(exWetConnection, exWetMetrics)]"
  unfolding rankedItems_def exWetComputed
  by (simp add: maxTransfersOf_def exOutdoorContext_def exOutdoorPrefs_def filtered_def withinLimit_def)

lemma exWetFacts:
  "weather exWetConnection = Some \<lparr>samples = Some [\<lparr>precipitation = 0, snowfall = 0, windGusts = 0\<rparr>,
                                      \<lparr>precipitation = 2, snowfall = 0, windGusts = 0\<rparr>],
                       penalty = None, weatherLevel = Low, weatherReasons = None\<rparr>"
  "durationMinutes exWetConnection = 30"
  "transfersCount exWetConnection = 0"
  "walkingMinutes exWetMetrics = 10"
  "exposureMinutes exWetMetrics = 10"
  "riskScore (computeRisk exWetConnection exWetMetrics) = 0.3"
  by (simp_all add: exWetConnection_def exWetMetrics_def computeRisk_def Let_def clamp_def
      reliabilityOf_def weatherPenaltyOf_def)

subsection \<open>Transfer waits, written out\<close>







subsection \<open>Line resolver, written out\<close>

lemma trim_Nil: "trim [] = []"
  by code_simp

lemma trimmedLineId_explicit:
  "trimmedLineId q =
     (if (case qLineId q of None \<Rightarrow> [] | Some s \<Rightarrow> trim s) = [] then None
      else Some (case qLineId q of None \<Rightarrow> [] | Some s \<Rightarrow> trim s))"
  by (simp add: trimmedLineId_def split: option.splits)

lemma fallbackDisplay_explicit:
  "fallbackDisplay q =
     trim (if (case qCategory q of None \<Rightarrow> [] | Some c \<Rightarrow> c) \<noteq> []
              \<and> (case qNumber q of None \<Rightarrow> [] | Some n \<Rightarrow> n) \<noteq> []
           then (case qCategory q of None \<Rightarrow> [] | Some c \<Rightarrow> c) @ '' ''
                @ (case qNumber q of None \<Rightarrow> [] | Some n \<Rightarrow> n)
           else (case qCategory q of None \<Rightarrow> [] | Some c \<Rightarrow> c)
                @ (case qNumber q of None \<Rightarrow> [] | Some n \<Rightarrow> n))"
  by (simp add: fallbackDisplay_def split: option.splits)

lemma findRouteId_explicit:
  "key \<noteq> [] \<Longrightarrow> findRouteId lookup key =
     (if truthyVal (readProp (trips lookup) key) then readProp (trips lookup) key
      else if readRoute lookup key \<noteq> None then Str key
      else (case routeShortNameToId lookup of
              None \<Rightarrow> readProp (trips lookup) key
            | Some m \<Rightarrow> if truthyVal (readProp m key) then readProp m key
                        else readProp (trips lookup) key))"
  by (auto simp: findRouteId_def Let_def split: option.splits)

lemma routeDisplay_explicit:
  "(if truthy (routeDisplay route) then the (routeDisplay route) else []) =
     (case route of
        None \<Rightarrow> []
      | Some r \<Rightarrow>
          if (case shortName r of None \<Rightarrow> [] | Some s \<Rightarrow> s) \<noteq> []
          then (case shortName r of None \<Rightarrow> [] | Some s \<Rightarrow> s)
          else (case longName r of None \<Rightarrow> [] | Some l \<Rightarrow> l))"
  by (simp add: routeDisplay_def split: option.splits)

lemma exLineTrim:
  "trim '' T1 '' = ''T1''" "trim ''S 1'' = ''S 1''" "trim '' S1 '' = ''S1''"
  "trim ''999999'' = ''999999''" "trim ''B'' = ''B''"
  by code_simp+

subsection \<open>Decision summary\<close>

lemma relabel_optId: "map optId (relabel es) = map (\<lambda>e. optId (fst e)) es"
proof -
  have "map optId (relabel es) = map (\<lambda>p. optId (fst (snd p))) (enumerate 0 es)"
    by (simp add: relabel_def split_def)
  also have "\<dots> = map (\<lambda>e. optId (fst e)) (map snd (enumerate 0 es))"
    unfolding map_map comp_def ..
  also have "\<dots> = map (\<lambda>e. optId (fst e)) es"
    by (simp only: map_snd_enumerate)
  finally show ?thesis .
qed

lemma optionsWithScore_optId:
  "map (\<lambda>e. optId (fst e)) (optionsWithScore H ctx items) = map (\<lambda>i. connId (fst i)) items"
proof -
  have "map (\<lambda>e. optId (fst e)) (optionsWithScore H ctx items)
      = map (\<lambda>p. connId (fst (snd p))) (enumerate 0 items)"
    by (simp add: optionsWithScore_def split_def buildOption_def Let_def)
  also have "\<dots> = map (\<lambda>i. connId (fst i)) (map snd (enumerate 0 items))"
    unfolding map_map comp_def ..
  also have "\<dots> = map (\<lambda>i. connId (fst i)) items"
    by (simp only: map_snd_enumerate)
  finally show ?thesis .
qed

lemma length_relabel: "length (relabel es) = length es"
  by (simp add: relabel_def)

lemma length_optionsWithScore: "length (optionsWithScore H ctx items) = length items"
  by (simp add: optionsWithScore_def)

lemma filtered_nonempty: "items \<noteq> [] \<Longrightarrow> filtered limit items \<noteq> []"
  by (cases limit) (auto simp: filtered_def withinLimit_def)

lemma exNoBuild: "buildMetrics exHost [] = exNoMetrics"
  by (simp add: buildMetrics_def Let_def exNoMetrics_def)

lemma exPairComputed:
  "computed exHost [exDirectConnection, exConnection]
     = [(exDirectConnection, exNoMetrics), (exConnection, exNoMetrics)]"
proof -
  have "legs exDirectConnection = []" "legs exConnection = []"
    by (simp_all add: exDirectConnection_def exConnection_def)
  then show ?thesis
    by (simp add: computed_def exNoBuild)
qed

lemma exCounts: "transfersCount exDirectConnection = 0" "transfersCount exConnection = 1"
  by (simp_all add: exDirectConnection_def exConnection_def)

lemma exNegativeLimit:
  "preferences exNegativeLimitContext
     = Some \<lparr>maxTransfers = Some (- 1), preferLowWalking = None, minimizeOutdoorIfRaining = None\<rparr>"
  by (simp add: exNegativeLimitContext_def)

lemma summary_result:
  assumes "connections \<noteq> []"
  shows "buildDecisionSummary H connections ctx =
     (if list_ex (\<lambda>item. leaveByTime H ctx (fst item) = Some (Inl RangeError))
           (rankedItems H connections ctx)
      then Inl RangeError
      else Inr (assemble H ctx (constraintNoteOf (maxTransfersOf ctx) (computed H connections))
                  (relabel (sort_key snd (optionsWithScore H ctx (rankedItems H connections ctx))))))"
  using assms by (simp add: buildDecisionSummary_def Let_def)

lemma assemble_fields:
  "constraintNote (assemble H ctx note opts) = note"
  "options (assemble H ctx note opts) = opts"
  by (simp_all add: assemble_def)

lemma sorted_options_ids:
  "mset (map optId (relabel (sort_key snd (optionsWithScore H ctx items))))
     = mset (map (\<lambda>i. connId (fst i)) items)"
proof -
  let ?es = "optionsWithScore H ctx items"
  have "mset (map optId (relabel (sort_key snd ?es)))
      = mset (map (\<lambda>e. optId (fst e)) (sort_key snd ?es))"
    unfolding relabel_optId ..
  also have "\<dots> = image_mset (\<lambda>e. optId (fst e)) (mset (sort_key snd ?es))"
    by simp
  also have "\<dots> = image_mset (\<lambda>e. optId (fst e)) (mset ?es)"
    by (simp only: mset_sort)
  also have "\<dots> = mset (map (\<lambda>e. optId (fst e)) ?es)"
    by simp
  finally show ?thesis
    unfolding optionsWithScore_optId .
qed

lemma computed_fst: "map fst (computed H connections) = connections"
  by (simp add: computed_def comp_def)

lemma withinLimit_fst:
  "map fst (withinLimit (Some n) (computed H connections))
     = filter (\<lambda>c. transfersCount c \<le> n) connections"
  by (simp add: withinLimit_def computed_def filter_map comp_def)

lemma rankedItems_fst:
  assumes "maxTransfersOf ctx = Some n"
  shows "map fst (rankedItems H connections ctx) =
     (if \<exists>c\<in>set connections. transfersCount c \<le> n
      then filter (\<lambda>c. transfersCount c \<le> n) connections
      else connections)"
proof -
  have e: "withinLimit (Some n) (computed H connections) = [] \<longleftrightarrow>
           \<not> (\<exists>c\<in>set connections. transfersCount c \<le> n)"
    by (auto simp: withinLimit_def computed_def filter_empty_conv)
  show ?thesis
    unfolding rankedItems_def assms filtered_def
    using e by (simp add: withinLimit_fst computed_fst)
qed

lemma note_limit:
  assumes "maxTransfersOf ctx = Some n"
  shows "constraintNoteOf (maxTransfersOf ctx) (computed H connections) =
     (if \<exists>c\<in>set connections. transfersCount c \<le> n then None
      else Some (''No routes within '' @ showInt n @ '' transfer''
                   @ (if n = 1 then [] else ''s'') @ ''; showing closest matches.''))"
proof -
  have e: "withinLimit (Some n) (computed H connections) = [] \<longleftrightarrow>
           \<not> (\<exists>c\<in>set connections. transfersCount c \<le> n)"
    by (auto simp: withinLimit_def computed_def filter_empty_conv)
  show ?thesis
    unfolding assms constraintNoteOf_def using e by simp
qed

lemma leaveByTime_overflow:
  "leaveByTime H ctx c = Some (Inl RangeError) \<longleftrightarrow>
     \<not> isArrivalTime ctx
     \<and> (\<exists>m. departureBufferMinutes ctx = Some m \<and> m \<noteq> 0
          \<and> (\<exists>t. getTime H (departureTime c) = Some t \<and> minutesEarlierISO H t m = None))"
  by (auto simp: leaveByTime_def subtractMinutes_def truthyInt_def split: option.splits)

lemma overflow_ranked:
  "list_ex (\<lambda>item. leaveByTime H ctx (fst item) = Some (Inl RangeError)) items \<longleftrightarrow>
     \<not> isArrivalTime ctx
     \<and> (\<exists>m. departureBufferMinutes ctx = Some m \<and> m \<noteq> 0
          \<and> (\<exists>c\<in>set (map fst items). \<exists>t. getTime H (departureTime c) = Some t
                \<and> minutesEarlierISO H t m = None))"
  unfolding list_ex_iff leaveByTime_overflow by auto

lemma limit_requested:
  "0 \<le> requested \<Longrightarrow> (n \<le> max 0 \<lfloor>requested\<rfloor>) = (real_of_int n \<le> requested)"
proof -
  assume "0 \<le> requested"
  then have "0 \<le> \<lfloor>requested\<rfloor>" by simp
  then have "max 0 \<lfloor>requested\<rfloor> = \<lfloor>requested\<rfloor>" by simp
  then show ?thesis by (simp add: le_floor_iff)
qed

lemma exRushWetCounts: "transfersCount exRushConnection = 1" "transfersCount exWetConnection = 0"
  "connId exWetConnection = ''wet''" "departureTime exWetConnection = ''t0''"
  "connId exDirectConnection = ''d0''"
  by (simp_all add: exRushConnection_def exWetConnection_def exDirectConnection_def)

lemma exBufferPrefs:
  "preferences exBufferContext
     = Some \<lparr>maxTransfers = Some 0, preferLowWalking = None, minimizeOutdoorIfRaining = None\<rparr>"
  "isArrivalTime exBufferContext = False"
  "departureBufferMinutes exBufferContext = Some 5"
  by (simp_all add: exBufferContext_def)

lemma exOverflowPrefs:
  "maxTransfersOf exOverflowContext = Some 0"
  "isArrivalTime exOverflowContext = False"
  "departureBufferMinutes exOverflowContext = Some 144000000001"
  by (simp_all add: exOverflowContext_def maxTransfersOf_def)

lemma exHostTimes:
  "getTime exHost ''t0'' = Some 0"
  "minutesEarlierISO exHost 0 5 \<noteq> None"
  "minutesEarlierISO exHost 0 144000000001 = None"
  by (simp_all add: exHost_def)

lemma mset_single_list: "mset xs = {#a#} \<Longrightarrow> xs = [a]"
  by (cases xs) auto

subsection \<open>Risk model and doubles\<close>

lemma computeRisk_exact: "computeRisk c m = computeRiskOn exactNumbers c m"
  by (simp add: computeRisk_def computeRiskOn_def exactNumbers_def reliabilityOf_def
      weatherPenaltyOf_def Let_def split: option.splits)

lemma roundEven_near: "\<bar>y - real_of_int f\<bar> < 1 / 2 \<Longrightarrow> roundEven y = f"
proof (cases "real_of_int f \<le> y")
  case True
  assume a: "\<bar>y - real_of_int f\<bar> < 1 / 2"
  with True have "\<lfloor>y\<rfloor> = f" by (intro floor_unique) auto
  with a True show ?thesis by (simp add: roundEven_def Let_def)
next
  case False
  assume a: "\<bar>y - real_of_int f\<bar> < 1 / 2"
  with False have fl: "\<lfloor>y\<rfloor> = f - 1" by (intro floor_unique) auto
  with a False show ?thesis by (simp add: roundEven_def Let_def)
qed

lemma roundEven_tie: "y = real_of_int f + 1 / 2 \<Longrightarrow> even f \<Longrightarrow> roundEven y = f"
proof -
  assume y: "y = real_of_int f + 1 / 2" and e: "even f"
  have "\<lfloor>y\<rfloor> = f" unfolding y by (intro floor_unique) auto
  with y e show ?thesis by (simp add: roundEven_def Let_def)
qed

lemma powr_neg_nat: "2 powr (- real k) = 1 / 2 ^ k"
  by (simp add: powr_minus powr_realpow inverse_eq_divide)

lemma floor_log2:
  assumes "1 / 2 ^ n \<le> x" and "x < 2 / 2 ^ n"
  shows "\<lfloor>log 2 \<bar>x\<bar>\<rfloor> = - int n"
proof -
  have "0 < 1 / (2::real) ^ n" by simp
  then have p: "0 < x" using assms(1) by (rule less_le_trans)
  have e: "2 powr (- real n) = 1 / 2 ^ n"
    by (simp add: powr_minus powr_realpow inverse_eq_divide)
  have "2 powr (- real n) \<le> x" unfolding e by (rule assms(1))
  then have lo: "- real n \<le> log 2 x" using p by (simp add: le_log_iff)
  have "2 powr (- real n + 1) = 2 powr (- real n) * 2 powr 1"
    by (rule powr_add)
  then have "2 powr (- real n + 1) = 2 / 2 ^ n"
    unfolding e by simp
  then have "x < 2 powr (- real n + 1)" using assms(2) by (simp only:)
  then have hi: "log 2 x < - real n + 1" using p by (simp add: log_less_iff)
  have "\<lfloor>log 2 x\<rfloor> = - int n"
    using lo hi by (intro floor_unique) simp_all
  with p show ?thesis by simp
qed

lemma nearestDouble_unit:
  assumes "1 / 2 ^ n \<le> x" and "x < 2 / 2 ^ n"
  shows "nearestDouble x = real_of_int (roundEven (x * 2 ^ (52 + n))) / 2 ^ (52 + n)"
proof -
  have "0 < 1 / (2::real) ^ n" by simp
  then have "0 < x" using assms(1) by (rule less_le_trans)
  then have p: "x \<noteq> 0" by simp
  have e: "real_of_int \<lfloor>log 2 \<bar>x\<bar>\<rfloor> - 52 = - real (52 + n)"
    unfolding floor_log2 [OF assms] by simp
  have u: "2 powr (real_of_int \<lfloor>log 2 \<bar>x\<bar>\<rfloor> - 52) = 1 / 2 ^ (52 + n)"
    unfolding e by (rule powr_neg_nat)
  show ?thesis
    using p by (simp add: nearestDouble_def Let_def u)
qed

lemma fl_nearest:
  assumes "1 / 2 ^ n \<le> x" and "x < 2 / 2 ^ n"
    and "\<bar>x * 2 ^ (52 + n) - real_of_int f\<bar> < 1 / 2"
  shows "nearestDouble x = real_of_int f / 2 ^ (52 + n)"
  unfolding nearestDouble_unit [OF assms(1,2)] roundEven_near [OF assms(3)] ..

lemma fl_tie:
  assumes "1 / 2 ^ n \<le> x" and "x < 2 / 2 ^ n"
    and "x * 2 ^ (52 + n) = real_of_int f + 1 / 2" and "even f"
  shows "nearestDouble x = real_of_int f / 2 ^ (52 + n)"
  unfolding nearestDouble_unit [OF assms(1,2)] roundEven_tie [OF assms(3,4)] ..

lemma fl_tie_up:
  assumes "1 / 2 ^ n \<le> x" and "x < 2 / 2 ^ n"
    and "x * 2 ^ (52 + n) = real_of_int f - 1 / 2" and "even f"
  shows "nearestDouble x = real_of_int f / 2 ^ (52 + n)"
proof -
  have o: "odd (f - 1)" using assms(4) by simp
  have fl: "\<lfloor>x * 2 ^ (52 + n)\<rfloor> = f - 1"
    unfolding assms(3) by (intro floor_unique) auto
  have "roundEven (x * 2 ^ (52 + n)) = f"
    using o by (simp add: roundEven_def Let_def fl) (simp add: assms(3))
  then show ?thesis
    unfolding nearestDouble_unit [OF assms(1,2)] by simp
qed


lemma nearestDouble_zero: "nearestDouble 0 = 0"
  by (simp add: nearestDouble_def)

lemma nearestDouble_one: "nearestDouble 1 = 1"
  using fl_nearest [where n = 0 and x = 1 and f = "2 ^ 52"] by simp

lemma exDoubleValues:
  "nearestDouble 0.55 = 4953959590107546 / 2 ^ 53"
  "nearestDouble 0.09 = 6485183463413514 / 2 ^ 56"
  "nearestDouble 0.7 = 6305039478318694 / 2 ^ 53"
  "nearestDouble 0.3 = 5404319552844595 / 2 ^ 54"
  "nearestDouble 0.06 = 8646911284551352 / 2 ^ 57"
  "nearestDouble 0.6 = 5404319552844595 / 2 ^ 53"
  "nearestDouble 0.35 = 6305039478318694 / 2 ^ 54"
  using fl_nearest [where n = 1 and x = "0.55" and f = 4953959590107546]
    fl_nearest [where n = 4 and x = "0.09" and f = 6485183463413514]
    fl_nearest [where n = 1 and x = "0.7" and f = 6305039478318694]
    fl_nearest [where n = 2 and x = "0.3" and f = 5404319552844595]
    fl_nearest [where n = 5 and x = "0.06" and f = 8646911284551352]
    fl_nearest [where n = 1 and x = "0.6" and f = 5404319552844595]
    fl_nearest [where n = 2 and x = "0.35" and f = 6305039478318694]
  by simp_all

lemma exDoubleSteps:
  "nearestDouble (20 / 20) = 1"
  "nearestDouble (6305039478318694 / 2 ^ 53 * 1) = 6305039478318694 / 2 ^ 53"
  "nearestDouble (5404319552844595 / 2 ^ 54 + 6305039478318694 / 2 ^ 53) = 1"
  "nearestDouble (6485183463413514 / 2 ^ 56 * 1) = 6485183463413514 / 2 ^ 56"
  "nearestDouble (1 - 4953959590107546 / 2 ^ 53) = 8106479329266892 / 2 ^ 54"
  "nearestDouble (8106479329266892 / 2 ^ 54 + 6485183463413514 / 2 ^ 56)
     = 4863887597560135 / 2 ^ 53"
  "nearestDouble (4863887597560135 / 2 ^ 53 + 8646911284551352 / 2 ^ 57)
     = 5404319552844594 / 2 ^ 53"
proof -
  show "nearestDouble (20 / 20) = 1"
    by (simp add: nearestDouble_one)
  show "nearestDouble (6305039478318694 / 2 ^ 53 * 1) = 6305039478318694 / 2 ^ 53"
    using fl_nearest [where n = 1 and x = "6305039478318694 / 2 ^ 53 * 1" and f = 6305039478318694]
    by simp
  show "nearestDouble (5404319552844595 / 2 ^ 54 + 6305039478318694 / 2 ^ 53) = 1"
    using fl_tie_up [where n = 1 and x = "5404319552844595 / 2 ^ 54 + 6305039478318694 / 2 ^ 53"
        and f = 9007199254740992]
    by simp
  show "nearestDouble (6485183463413514 / 2 ^ 56 * 1) = 6485183463413514 / 2 ^ 56"
    using fl_nearest [where n = 4 and x = "6485183463413514 / 2 ^ 56 * 1" and f = 6485183463413514]
    by simp
  show "nearestDouble (1 - 4953959590107546 / 2 ^ 53) = 8106479329266892 / 2 ^ 54"
    using fl_nearest [where n = 2 and x = "1 - 4953959590107546 / 2 ^ 53" and f = 8106479329266892]
    by simp
  show "nearestDouble (8106479329266892 / 2 ^ 54 + 6485183463413514 / 2 ^ 56)
     = 4863887597560135 / 2 ^ 53"
    using fl_nearest [where n = 1 and x = "8106479329266892 / 2 ^ 54 + 6485183463413514 / 2 ^ 56"
        and f = 4863887597560135]
    by simp
  show "nearestDouble (4863887597560135 / 2 ^ 53 + 8646911284551352 / 2 ^ 57)
     = 5404319552844594 / 2 ^ 53"
    using fl_tie [where n = 1 and x = "4863887597560135 / 2 ^ 53 + 8646911284551352 / 2 ^ 57"
        and f = 5404319552844594]
    by simp
qed

section \<open>The CSV tokenizer\<close>

lemma forEachCsvRow_example:
  "forEachCsvRow (''a,'' @ [dquote] @ ''b,c'' @ [dquote, comma, dquote] @ ''d'' @ [dquote, dquote]
       @ ''e'' @ [dquote, CR, LF] @ ''f,g,h'')
   = [[''a'', ''b,c'', ''d'' @ [dquote] @ ''e''], [''f'', ''g'', ''h'']]"
  by (simp add: forEachCsvRow_def flushRow_def LF_def CR_def dquote_def comma_def)

text \<open>
  Claim C4. The tokenizer is to emit no row for a wholly empty line. The code pushes the
  (empty) field before it tests the row's length, so the test in \<open>flushRow\<close> never
  fails: on the three lines \<open>a\<close>, empty, \<open>b\<close> the empty line is emitted as a row
  with one empty field.
\<close>

theorem forEachCsvRow_emits_blank_line:
  "forEachCsvRow (''a'' @ [LF, LF] @ ''b'') = [[''a''], [[]], [''b'']]"
  by (simp add: forEachCsvRow_def flushRow_def LF_def CR_def dquote_def comma_def)

section \<open>Connection metrics\<close>



text \<open>
  Claim C10. The walking minutes, every transfer wait, their sum, the minimum wait, the
  exposure minutes and the delay total are integers that are never negative, whatever
  the time stamps are: a missing or unparseable time stamp gives zero minutes, and so
  does a departure that is not after the arrival before it.
\<close>

theorem buildMetrics_nonneg:
  "0 \<le> walkingMinutes (buildMetrics H ls)
   \<and> (\<forall>w\<in>set (transferWaitMinutesList H (filter (\<lambda>leg. legType leg = Ride) ls)). 0 \<le> w)
   \<and> 0 \<le> transferWaitMinutes (buildMetrics H ls)
   \<and> (\<forall>w. minTransferMinutes (buildMetrics H ls) = Some w \<longrightarrow> 0 \<le> w)
   \<and> 0 \<le> exposureMinutes (buildMetrics H ls)
   \<and> 0 \<le> delayMinutesTotal (buildMetrics H ls)
   \<and> (\<forall>a d. \<not> truthy a \<or> \<not> truthy d \<or> getTime H (the a) = None \<or> getTime H (the d) = None
          \<longrightarrow> minutesBetween H a d = 0)
   \<and> (\<forall>a d ta td. getTime H a = Some ta \<and> getTime H d = Some td \<and> td \<le> ta
          \<longrightarrow> minutesBetween H (Some a) (Some d) = 0)"
proof -
  let ?waits = "transferWaitMinutesList H (filter (\<lambda>leg. legType leg = Ride) ls)"
  have w: "0 \<le> walkingMinutes (buildMetrics H ls)"
    unfolding bm_walking by (rule sum_list_nonneg_int) (auto simp: legMinutes_def minutesBetween_nonneg)
  have e: "\<forall>w\<in>set ?waits. 0 \<le> w"
    using waits_nonneg by blast
  have t: "0 \<le> transferWaitMinutes (buildMetrics H ls)"
    unfolding bm_sum by (rule sum_list_nonneg_int) (rule waits_nonneg)
  have m: "\<forall>w. minTransferMinutes (buildMetrics H ls) = Some w \<longrightarrow> 0 \<le> w"
  proof (intro allI impI)
    fix w assume a: "minTransferMinutes (buildMetrics H ls) = Some w"
    then have ne: "?waits \<noteq> []" and "w = Min (set ?waits)"
      unfolding bm_min by (auto split: if_splits)
    then have "w \<in> set ?waits" by simp
    then show "0 \<le> w" by (rule waits_nonneg)
  qed
  have x: "0 \<le> exposureMinutes (buildMetrics H ls)"
    unfolding bm_exposure using w t by simp
  have d: "0 \<le> delayMinutesTotal (buildMetrics H ls)"
    unfolding bm_delay by (rule delayLoop_nonneg) simp
  have u: "\<forall>a d. \<not> truthy a \<or> \<not> truthy d \<or> getTime H (the a) = None \<or> getTime H (the d) = None
          \<longrightarrow> minutesBetween H a d = 0"
    by (auto simp: minutesBetween_def split: option.splits)
  have o: "\<forall>a d ta td. getTime H a = Some ta \<and> getTime H d = Some td \<and> td \<le> ta
          \<longrightarrow> minutesBetween H (Some a) (Some d) = 0"
    using minutesBetween_out_of_order by blast
  from w e t m x d u o show ?thesis by blast
qed

theorem buildMetrics_nonneg_witness:
  "(6::int) \<in> set (transferWaitMinutesList exHost (filter (\<lambda>leg. legType leg = Ride) exLegs))
   \<and> minTransferMinutes (buildMetrics exHost exLegs) = Some 0
   \<and> getTime exHost (the (Some ''bad'')) = None
   \<and> minutesBetween exHost (Some ''t10'') (Some ''bad'') = 0
   \<and> getTime exHost ''t30'' = Some 1800000 \<and> getTime exHost ''t5'' = Some 300000
   \<and> (300000::int) \<le> 1800000
   \<and> minutesBetween exHost (Some ''t30'') (Some ''t5'') = 0
   \<and> walkingMinutes (buildMetrics exHost exLegs) = 5
   \<and> transferWaitMinutes (buildMetrics exHost exLegs) = 6
   \<and> exposureMinutes (buildMetrics exHost exLegs) = 11
   \<and> delayMinutesTotal (buildMetrics exHost exLegs) = 3
   \<and> 0 \<le> delayMinutesTotal (buildMetrics exHost exLegs)"
proof -
  note t = buildMetrics_nonneg [of exHost exLegs]
  have d: "delayMinutesTotal (buildMetrics exHost exLegs) = 3"
    unfolding bm_delay exRides by (simp add: mkLeg_sel)
  have w: "walkingMinutes (buildMetrics exHost exLegs) = 5"
    unfolding bm_walking exWalks by (simp add: legMinutes_def mkLeg_sel exMinutes)
  have s: "transferWaitMinutes (buildMetrics exHost exLegs) = 6"
    unfolding bm_sum exWaits by simp
  have m: "minTransferMinutes (buildMetrics exHost exLegs) = Some 0"
    unfolding bm_min exWaits by simp
  from t d w s m show ?thesis
    by (simp add: exWaits exTimes exMinutes bm_exposure)
qed

section \<open>Reason selection\<close>

text \<open>
  Claim C8. The selected reasons are at most three, no label occurs twice, and they are
  in the order of their priority tiers, ascending. A tight transfer reason, when it is
  present, is the first reason, so that "rush hour" never stands before it.
\<close>

theorem buildReasons_selection:
  "length (buildReasons c m prefs) \<le> 3
   \<and> distinct (buildReasons c m prefs)
   \<and> buildReasons c m prefs = map fst (selectedReasons c m prefs)
   \<and> sorted (map snd (selectedReasons c m prefs))
   \<and> set (selectedReasons c m prefs) \<subseteq> set (reasonCandidates c m prefs)
   \<and> (minTransferMinutes m \<noteq> None \<and> the (minTransferMinutes m) < 8 \<longrightarrow>
        buildReasons c m prefs \<noteq> [] \<and> hd (buildReasons c m prefs) = tightTransferLabel m
        \<and> (\<forall>i j. i < length (buildReasons c m prefs) \<and> j < length (buildReasons c m prefs)
              \<and> buildReasons c m prefs ! i = ''rush hour''
              \<and> buildReasons c m prefs ! j = tightTransferLabel m \<longrightarrow> \<not> i < j))"
proof -
  let ?cs = "reasonCandidates c m prefs"
  let ?out = "buildReasons c m prefs"
  note inv = reasonCandidates_inv [of c m prefs]
  have out: "?out = take 3 (map fst ?cs)"
    by (simp add: buildReasons_def selectedReasons_take take_map)
  have len: "length ?out \<le> 3"
    unfolding out by simp
  have dis: "distinct ?out"
    unfolding out using inv by (intro distinct_take) blast
  have eq: "?out = map fst (selectedReasons c m prefs)"
    by (simp add: buildReasons_def)
  have srt: "sorted (map snd (selectedReasons c m prefs))"
    unfolding selectedReasons_take take_map [symmetric] using inv by (intro sorted_take_nat) blast
  have sub: "set (selectedReasons c m prefs) \<subseteq> set ?cs"
    unfolding selectedReasons_take by (rule set_take_subset)
  have tight: "minTransferMinutes m \<noteq> None \<and> the (minTransferMinutes m) < 8 \<longrightarrow>
        ?out \<noteq> [] \<and> hd ?out = tightTransferLabel m
        \<and> (\<forall>i j. i < length ?out \<and> j < length ?out
              \<and> ?out ! i = ''rush hour'' \<and> ?out ! j = tightTransferLabel m \<longrightarrow> \<not> i < j)"
  proof
    assume t: "minTransferMinutes m \<noteq> None \<and> the (minTransferMinutes m) < 8"
    with inv have ne: "?cs \<noteq> []" and h: "hd ?cs = (tightTransferLabel m, 1)"
      by blast+
    have one: "?out \<noteq> []" unfolding out using ne by simp
    have two: "hd ?out = tightTransferLabel m"
      unfolding out using ne h by (simp add: hd_map)
    have three: "\<forall>i j. i < length ?out \<and> j < length ?out
              \<and> ?out ! i = ''rush hour'' \<and> ?out ! j = tightTransferLabel m \<longrightarrow> \<not> i < j"
    proof (intro allI impI)
      fix i j
      assume a: "i < length ?out \<and> j < length ?out
              \<and> ?out ! i = ''rush hour'' \<and> ?out ! j = tightTransferLabel m"
      have "?out ! 0 = tightTransferLabel m"
        using one two by (simp add: hd_conv_nth)
      with a have "?out ! j = ?out ! 0" by simp
      moreover have "0 < length ?out" using one by simp
      ultimately have "j = 0"
        using nth_eq_iff_index_eq [OF dis, of j 0] a by blast
      then show "\<not> i < j" by simp
    qed
    from one two three show "?out \<noteq> [] \<and> hd ?out = tightTransferLabel m
        \<and> (\<forall>i j. i < length ?out \<and> j < length ?out
              \<and> ?out ! i = ''rush hour'' \<and> ?out ! j = tightTransferLabel m \<longrightarrow> \<not> i < j)"
      by blast
  qed
  from len dis eq srt sub tight show ?thesis by blast
qed

theorem buildReasons_selection_witness:
  "minTransferMinutes exTightMetrics \<noteq> None \<and> the (minTransferMinutes exTightMetrics) < 8
   \<and> buildReasons exRushConnection exTightMetrics None = [''5 min transfer at Bern'', ''1 transfer'', ''rush hour'']
   \<and> (2::nat) < length (buildReasons exRushConnection exTightMetrics None)
   \<and> buildReasons exRushConnection exTightMetrics None ! 2 = ''rush hour''
   \<and> buildReasons exRushConnection exTightMetrics None ! 0 = tightTransferLabel exTightMetrics
   \<and> \<not> (2::nat) < 0
   \<and> selectedReasons exRushConnection exTightMetrics None
        = [(''5 min transfer at Bern'', 1), (''1 transfer'', 6), (''rush hour'', 8)]"
proof -
  note t = buildReasons_selection [of exRushConnection exTightMetrics None]
  have s: "selectedReasons exRushConnection exTightMetrics None
        = [(''5 min transfer at Bern'', 1), (''1 transfer'', 6), (''rush hour'', 8)]"
    by (simp add: selectedReasons_take exCandidates)
  have m: "minTransferMinutes exTightMetrics = Some 5" "transferStation exTightMetrics = Some ''Bern''"
    by (simp_all add: exTightMetrics_def)
  from t s m show ?thesis
    by (simp add: tightTransferLabel_def exShow)
qed

section \<open>The agency table\<close>

text \<open>
  Claim C7, as amended. When the header has no \<open>agency_id\<close> column, every row
  with a name is stored under the one fallback id \<open>default\<close>, a later row
  replacing the name of an earlier one: the fallback id is set to the id that was just
  used, never to a name. The default agency id is recorded exactly when the table has
  one key, which here means that some row has a name.
\<close>

theorem parseAgencies_without_id_column:
  assumes "forEachCsvRow txt = header # rest"
    and "''agency_id'' \<notin> set (stripHeader header)"
    and "names = filter (\<lambda>n. n \<noteq> [])
           (map (\<lambda>row. trim (orElse (atIndex row (indexOf (stripHeader header) ''agency_name'')) [])) rest)"
  shows "parseAgencies txt =
           (if names = [] then ([], None) else ([(''default'', last names)], Some ''default''))
         \<and> (\<forall>k. snd (parseAgencies txt) = Some k \<longleftrightarrow> map fst (fst (parseAgencies txt)) = [k])"
proof -
  let ?st0 = "agencyOnRow header 0 agencyInit"
  have i0: "idxId ?st0 = None"
    using assms(2) by (simp add: agencyOnRow_def Let_def agencyInit_def indexOf_None_iff)
  have n0: "idxName ?st0 = indexOf (stripHeader header) ''agency_name''"
    by (simp add: agencyOnRow_def Let_def)
  have f0: "fallbackId ?st0 = ''default''"
    by (simp add: agencyOnRow_def Let_def agencyInit_def)
  have a0: "agencyTable ?st0 = []"
    by (simp add: agencyOnRow_def Let_def agencyInit_def)
  have "agencyRows (forEachCsvRow txt) 0 agencyInit = agencyRows rest (Suc 0) ?st0"
    by (simp add: assms(1))
  also have "\<dots> = ?st0\<lparr>agencyTable := (if names = [] then [] else [(''default'', last names)])\<rparr>"
    using agencyRows_no_id [of ?st0 "Suc 0" rest] i0 f0 a0
    unfolding n0 assms(3) by simp
  finally have r: "agencyRows (forEachCsvRow txt) 0 agencyInit =
      ?st0\<lparr>agencyTable := (if names = [] then [] else [(''default'', last names)])\<rparr>" .
  have one: "parseAgencies txt =
           (if names = [] then ([], None) else ([(''default'', last names)], Some ''default''))"
    unfolding parseAgencies_def r by (simp add: Let_def)
  have two: "\<forall>k. snd (parseAgencies txt) = Some k \<longleftrightarrow> map fst (fst (parseAgencies txt)) = [k]"
    unfolding one by auto
  from one two show ?thesis by blast
qed

theorem parseAgencies_without_id_column_witness:
  "forEachCsvRow exAgencyTxt = [''agency_name''] # [[''SBB''], [''BLS'']]
   \<and> ''agency_id'' \<notin> set (stripHeader [''agency_name''])
   \<and> parseAgencies exAgencyTxt = ([(''default'', ''BLS'')], Some ''default'')"
proof -
  have h: "stripHeader [''agency_name''] = [''agency_name'']"
    by (simp add: stripBom_def)
  have a: "''agency_id'' \<notin> set (stripHeader [''agency_name''])"
    unfolding h by simp
  have r: "forEachCsvRow exAgencyTxt = [''agency_name''] # [[''SBB''], [''BLS'']]"
    by (simp add: exAgencyRows)
  from parseAgencies_without_id_column [OF r a refl] a r show ?thesis
    unfolding h by (simp add: exTrim)
qed

text \<open>
  The claim as the specification states it, with each new name as the next fallback id,
  gives another table on a header without id column and two agencies.
\<close>

theorem parseAgencies_rotating_counterexample:
  "parseAgencies exAgencyTxt = ([(''default'', ''BLS'')], Some ''default'')
   \<and> parseAgencies_rotating exAgencyTxt = ([(''default'', ''SBB''), (''SBB'', ''BLS'')], None)
   \<and> parseAgencies exAgencyTxt \<noteq> parseAgencies_rotating exAgencyTxt"
proof -
  have c: "parseAgencies exAgencyTxt = ([(''default'', ''BLS'')], Some ''default'')"
    unfolding parseAgencies_def exAgencyRows
    by (simp add: agencyOnRow_def agencyInit_def Let_def stripBom_def exTrim)
  have s: "parseAgencies_rotating exAgencyTxt = ([(''default'', ''SBB''), (''SBB'', ''BLS'')], None)"
    unfolding parseAgencies_rotating_def exAgencyRows
    by (simp add: agencyOnRow_rotating_def agencyInit_def Let_def stripBom_def exTrim)
  from c s show ?thesis by simp
qed

section \<open>The line resolver\<close>

text \<open>
  Claim C3, as amended. Let the identifier be the trimmed line id, and the join be
  the non-empty ones of category and number joined by one space, trimmed. The key is
  the identifier, or the join when the identifier is empty. With a lookup and a
  non-empty key, the route id is the entry of the trip table under the key, else the
  key itself when the route table has it, else the entry of the short-name table; the
  resolved name is the short name of that route, or its long name when the short name
  is missing or empty. The display string is the trimmed resolved name when that is not
  empty. When a name was resolved but is blank, it is the identifier, else the join.
  When no name was resolved, it is the join when that is not empty, else the
  identifier, else the empty string: the join is preferred to the identifier.
\<close>

theorem resolveLineInfo_display:
  assumes "tid = (case qLineId q of None \<Rightarrow> [] | Some s \<Rightarrow> trim s)"
    and "cat = (case qCategory q of None \<Rightarrow> [] | Some c \<Rightarrow> c)"
    and "num = (case qNumber q of None \<Rightarrow> [] | Some n \<Rightarrow> n)"
    and "fb = trim (if cat \<noteq> [] \<and> num \<noteq> [] then cat @ '' '' @ num else cat @ num)"
    and "key = (if tid \<noteq> [] then tid else fb)"
    and "rid =
          (case lookupOpt of
             None \<Rightarrow> Undefined
           | Some lookup \<Rightarrow>
               if key = [] then Undefined
               else if truthyVal (readProp (trips lookup) key) then readProp (trips lookup) key
               else if readRoute lookup key \<noteq> None then Str key
               else (case routeShortNameToId lookup of
                       None \<Rightarrow> readProp (trips lookup) key
                     | Some m \<Rightarrow> if truthyVal (readProp m key) then readProp m key
                                 else readProp (trips lookup) key))"
    and "resolved =
          (case lookupOpt of
             None \<Rightarrow> []
           | Some lookup \<Rightarrow>
               if \<not> truthyVal rid then []
               else (case readRoute lookup (propertyKey rid) of
                       None \<Rightarrow> []
                     | Some r \<Rightarrow>
                         if (case shortName r of None \<Rightarrow> [] | Some s \<Rightarrow> s) \<noteq> []
                         then (case shortName r of None \<Rightarrow> [] | Some s \<Rightarrow> s)
                         else (case longName r of None \<Rightarrow> [] | Some l \<Rightarrow> l)))"
  shows "routeId (resolveLineInfo q lookupOpt) = rid
   \<and> lineDisplay (resolveLineInfo q lookupOpt) =
       (if trim resolved \<noteq> [] then trim resolved
        else if resolved \<noteq> [] then (if tid \<noteq> [] then tid else fb)
        else if fb \<noteq> [] then fb
        else tid)"
proof -
  have t: "trimmedLineId q = (if tid = [] then None else Some tid)"
    unfolding assms(1) by (rule trimmedLineId_explicit)
  have f: "fallbackDisplay q = fb"
    unfolding assms(4) assms(2) assms(3) by (rule fallbackDisplay_explicit)
  show ?thesis
  proof (cases lookupOpt)
    case None
    then show ?thesis
      using assms(5-7) by (simp add: resolveLineInfo_def t f Let_def trim_Nil)
  next
    case (Some lookup)
    show ?thesis
    proof (cases "key = []")
      case True
      then show ?thesis
        using Some assms(5-7) by (simp add: resolveLineInfo_def t f Let_def trim_Nil split: if_splits)
    next
      case False
      have k: "orElse (trimmedLineId q) fb = key"
        unfolding assms(5) t by simp
      have r: "findRouteId lookup key = rid"
        unfolding assms(6) findRouteId_explicit [OF False] using Some False by simp
      have d: "(if truthy (routeDisplay (readRoute lookup (propertyKey rid)))
                then the (routeDisplay (readRoute lookup (propertyKey rid))) else []) =
               (if truthyVal rid then resolved else
                  (if truthy (routeDisplay (readRoute lookup (propertyKey rid)))
                   then the (routeDisplay (readRoute lookup (propertyKey rid))) else []))"
        unfolding assms(7) routeDisplay_explicit using Some by simp
      note r' = r [unfolded assms(5)]
      note nk = False [unfolded assms(5)]
      show ?thesis
      proof (cases "truthyVal rid")
        case tr: True
        then have res: "resolved = (if truthy (routeDisplay (readRoute lookup (propertyKey rid)))
                then the (routeDisplay (readRoute lookup (propertyKey rid))) else [])"
          using d by simp
        show ?thesis
        proof (cases "routeDisplay (readRoute lookup (propertyKey rid))")
          case None
          then show ?thesis
            using Some nk tr res r'
            by (cases "tid = []") (simp_all add: resolveLineInfo_def f Let_def t trim_Nil)
        next
          case (Some a)
          then show ?thesis
            using \<open>lookupOpt = Some lookup\<close> nk tr res r'
            by (cases "tid = []"; cases "a = []")
               (simp_all add: resolveLineInfo_def f Let_def t trim_Nil)
        qed
      next
        case fl: False
        then have "resolved = []"
          using Some assms(7) by simp
        then show ?thesis
          using Some nk fl r'
          by (cases "tid = []") (simp_all add: resolveLineInfo_def f Let_def t trim_Nil)
      qed
    qed
  qed
qed

theorem resolveLineInfo_display_witness:
  "routeId (resolveLineInfo exLineQuery (Some exLineLookup)) = Str ''91-1''
   \<and> lineDisplay (resolveLineInfo exLineQuery (Some exLineLookup)) = ''S1''"
  using resolveLineInfo_display [where q = exLineQuery and lookupOpt = "Some exLineLookup",
      OF refl refl refl refl refl refl refl]
  by (simp add: exLineQuery_def exLineLookup_def exLineTrim readProp_def readRoute_def)

text \<open>
  The order of the specification, identifier before join, fails for the identifier
  \<open>999999\<close> with category \<open>B\<close> and no lookup: the code displays \<open>B\<close>.
\<close>

theorem lineDisplay_order_counterexample:
  "lineDisplay (resolveLineInfo exQuery None) = ''B''
   \<and> lineDisplay_spec exQuery None = ''999999''
   \<and> lineDisplay (resolveLineInfo exQuery None) \<noteq> lineDisplay_spec exQuery None"
proof -
  have a: "lineDisplay (resolveLineInfo exQuery None) = ''B''"
    by (simp add: resolveLineInfo_def exQuery_def trimmedLineId_def fallbackDisplay_def
        exLineTrim Let_def)
  have b: "lineDisplay_spec exQuery None = ''999999''"
    by (simp add: lineDisplay_spec_def exQuery_def trimmedLineId_def exLineTrim)
  from a b show ?thesis by simp
qed

section \<open>The decision score\<close>

text \<open>
  Claim C2, as amended. In the ranking pass the decision score of a connection is the
  weighted mean of its risk score (weight 0.55), normalized duration (0.2), normalized
  transfer count (0.1), normalized walking minutes (0.1 with a low-walking preference,
  else 0) and normalized exposure minutes (0.1 with an outdoor-minimization preference
  and wet weather, else 0), divided by the sum of these weights, which is positive.
  Wet weather means a positive precipitation or snowfall in any forecast sample of the
  connection, not only in the first one.
\<close>

theorem decisionScore_weighted_mean:
  assumes "wWalk = (if flagOn prefs preferLowWalking then 0.1 else 0)"
    and "wExp = (if flagOn prefs minimizeOutdoorIfRaining
                     \<and> (\<exists>s\<in>set (samplesOf (weather (fst item))). precipitation s > 0 \<or> snowfall s > 0)
                 then 0.1 else 0)"
  shows "decisionScore prefs items item =
     (riskScore (computeRisk (fst item) (snd item)) * 0.55
      + normalize (real_of_int (durationMinutes (fst item)))
          (real_of_int (mathMin (map (\<lambda>i. durationMinutes (fst i)) items)))
          (real_of_int (mathMax (map (\<lambda>i. durationMinutes (fst i)) items))) * 0.2
      + normalize (real_of_int (transfersCount (fst item))) 0
          (real_of_int (mathMax (1 # map (\<lambda>i. transfersCount (fst i)) items))) * 0.1
      + normalize (real_of_int (walkingMinutes (snd item))) 0
          (real_of_int (mathMax (1 # map (\<lambda>i. walkingMinutes (snd i)) items))) * wWalk
      + normalize (real_of_int (exposureMinutes (snd item))) 0
          (real_of_int (mathMax (1 # map (\<lambda>i. exposureMinutes (snd i)) items))) * wExp)
     / (0.55 + 0.2 + 0.1 + wWalk + wExp)
   \<and> 0.55 + 0.2 + 0.1 + wWalk + wExp > 0
   \<and> map snd (optionsWithScore H ctx items) = map (decisionScore (preferences ctx) items) items"
proof -
  have pos: "0.55 + 0.2 + 0.1 + wWalk + wExp > 0"
    unfolding assms by simp
  have ws: "weightSum (weightsOf (flagOn prefs preferLowWalking) (flagOn prefs minimizeOutdoorIfRaining)
                (isWetWeather (weather (fst item)))) = 0.55 + 0.2 + 0.1 + wWalk + wExp"
    unfolding weightSum_weightsOf assms isWetWeather_iff ..
  have ww: "wWalking (weightsOf (flagOn prefs preferLowWalking) (flagOn prefs minimizeOutdoorIfRaining)
                (isWetWeather (weather (fst item)))) = wWalk"
    unfolding assms by (simp add: weightsOf_def)
  have we: "wExposure (weightsOf (flagOn prefs preferLowWalking) (flagOn prefs minimizeOutdoorIfRaining)
                (isWetWeather (weather (fst item)))) = wExp"
    unfolding assms isWetWeather_iff by (simp add: weightsOf_def)
  have wr: "wRisk (weightsOf a b c) = 0.55" "wDuration (weightsOf a b c) = 0.2"
    "wTransfer (weightsOf a b c) = 0.1" for a b c
    by (simp_all add: weightsOf_def)
  have sc: "decisionScore prefs items item =
     (riskScore (computeRisk (fst item) (snd item)) * 0.55
      + normalize (real_of_int (durationMinutes (fst item)))
          (real_of_int (mathMin (map (\<lambda>i. durationMinutes (fst i)) items)))
          (real_of_int (mathMax (map (\<lambda>i. durationMinutes (fst i)) items))) * 0.2
      + normalize (real_of_int (transfersCount (fst item))) 0
          (real_of_int (mathMax (1 # map (\<lambda>i. transfersCount (fst i)) items))) * 0.1
      + normalize (real_of_int (walkingMinutes (snd item))) 0
          (real_of_int (mathMax (1 # map (\<lambda>i. walkingMinutes (snd i)) items))) * wWalk
      + normalize (real_of_int (exposureMinutes (snd item))) 0
          (real_of_int (mathMax (1 # map (\<lambda>i. exposureMinutes (snd i)) items))) * wExp)
     / (0.55 + 0.2 + 0.1 + wWalk + wExp)"
    unfolding decisionScore_def decisionScoreWith_def Let_def ws ww we wr ..
  from sc pos optionsWithScore_scores show ?thesis by blast
qed


theorem decisionScore_weighted_mean_witness:
  "samplesOf (weather (fst (exWetConnection, exWetMetrics))) ! 1 \<in> set (samplesOf (weather (fst (exWetConnection, exWetMetrics))))
   \<and> precipitation (samplesOf (weather (fst (exWetConnection, exWetMetrics))) ! 1) > 0
   \<and> flagOn exOutdoorPrefs minimizeOutdoorIfRaining
   \<and> decisionScore exOutdoorPrefs [(exWetConnection, exWetMetrics)] (exWetConnection, exWetMetrics) = 53 / 190"
proof -
  note t = decisionScore_weighted_mean [where prefs = exOutdoorPrefs
      and item = "(exWetConnection, exWetMetrics)" and items = "[(exWetConnection, exWetMetrics)]"
      and H = exHost and ctx = exOutdoorContext, OF refl refl]
  have f: "flagOn exOutdoorPrefs minimizeOutdoorIfRaining" "\<not> flagOn exOutdoorPrefs preferLowWalking"
    by (simp_all add: flagOn_def exOutdoorPrefs_def)
  have w: "\<exists>s\<in>set (samplesOf (weather exWetConnection)). precipitation s > 0 \<or> snowfall s > 0"
    by (simp add: exWetFacts samplesOf_def)
  have v: "samplesOf (weather exWetConnection) ! 1 \<in> set (samplesOf (weather exWetConnection))"
    "precipitation (samplesOf (weather exWetConnection) ! 1) > 0"
    by (simp_all add: exWetFacts samplesOf_def)
  from t f w v show ?thesis
    by (simp add: exWetFacts(2-) normalize_def clamp_def)
qed

text \<open>
  With "wet" read from the first forecast sample only, as the specification has it, a
  connection with a dry first and a rainy second sample gets another decision score
  than the code computes.
\<close>

theorem decisionScore_first_sample_counterexample:
  "rankedItems exHost [exWetConnection] exOutdoorContext = [(exWetConnection, exWetMetrics)]
   \<and> isWetWeather (weather exWetConnection) \<and> \<not> isWetFirstSample (weather exWetConnection)
   \<and> decisionScore (preferences exOutdoorContext) (rankedItems exHost [exWetConnection] exOutdoorContext)
        (exWetConnection, exWetMetrics) = 53 / 190
   \<and> decisionScoreWith isWetFirstSample (preferences exOutdoorContext)
        (rankedItems exHost [exWetConnection] exOutdoorContext) (exWetConnection, exWetMetrics) = 33 / 170"
proof -
  have p: "preferences exOutdoorContext = exOutdoorPrefs"
    by (simp add: exOutdoorContext_def)
  have f: "flagOn exOutdoorPrefs minimizeOutdoorIfRaining" "\<not> flagOn exOutdoorPrefs preferLowWalking"
    by (simp_all add: flagOn_def exOutdoorPrefs_def)
  have w: "isWetWeather (weather exWetConnection)" "\<not> isWetFirstSample (weather exWetConnection)"
    by (simp_all add: exWetFacts isWetWeather_def isWetFirstSample_def)
  have a: "decisionScoreWith isWetWeather exOutdoorPrefs [(exWetConnection, exWetMetrics)]
             (exWetConnection, exWetMetrics) = 53 / 190"
    by (simp add: decisionScoreWith_def Let_def f w exWetFacts(2-) normalize_def clamp_def
        weightsOf_def weightSum_def)
  have b: "decisionScoreWith isWetFirstSample exOutdoorPrefs [(exWetConnection, exWetMetrics)]
             (exWetConnection, exWetMetrics) = 33 / 170"
    by (simp add: decisionScoreWith_def Let_def f w exWetFacts(2-) normalize_def clamp_def
        weightsOf_def weightSum_def)
  from a b w show ?thesis
    unfolding exWetRanked p decisionScore_def by simp
qed

section \<open>The transfer filter\<close>

text \<open>
  Claim C5, as amended. For a connection list that is not empty and a requested
  transfer limit, the limit in force is the requested number rounded down and raised to
  zero when negative; for a request that is not negative, a transfer count is within
  the limit in force exactly when it is at most the requested number. When some
  connection has at most that many transfers, exactly these connections are ranked and
  no note is attached; otherwise all connections are ranked and a note is attached.
  The operation throws a range error exactly when, in departure mode with a departure
  buffer, the leave-by date of a ranked connection is out of the range of dates; in
  every other case it returns a summary with one option for each ranked connection,
  so that the option list is never empty.
\<close>

theorem maxTransfers_filter:
  assumes "connections \<noteq> []"
    and "preferences ctx = Some p" and "maxTransfers p = Some requested"
    and "limit = max 0 \<lfloor>requested\<rfloor>"
    and "ranked = (if \<exists>c\<in>set connections. transfersCount c \<le> limit
                   then filter (\<lambda>c. transfersCount c \<le> limit) connections
                   else connections)"
    and "overflow =
          (\<not> isArrivalTime ctx
           \<and> (\<exists>m. departureBufferMinutes ctx = Some m \<and> m \<noteq> 0
                \<and> (\<exists>c\<in>set ranked. \<exists>t. getTime H (departureTime c) = Some t
                      \<and> minutesEarlierISO H t m = None)))"
  shows "(0 \<le> requested \<longrightarrow>
            (\<forall>c. (transfersCount c \<le> limit) = (real_of_int (transfersCount c) \<le> requested)))
       \<and> (overflow \<longrightarrow> buildDecisionSummary H connections ctx = Inl RangeError)
       \<and> (\<not> overflow \<longrightarrow>
            (\<exists>s. buildDecisionSummary H connections ctx = Inr s
               \<and> mset (map optId (options s)) = mset (map connId ranked)
               \<and> options s \<noteq> []
               \<and> constraintNote s =
                   (if \<exists>c\<in>set connections. transfersCount c \<le> limit then None
                    else Some (''No routes within '' @ showInt limit @ '' transfer''
                                 @ (if limit = 1 then [] else ''s'')
                                 @ ''; showing closest matches.''))))"
proof -
  have lim: "maxTransfersOf ctx = Some limit"
    using assms(2,3,4) by (simp add: maxTransfersOf_def)
  have rk: "map fst (rankedItems H connections ctx) = ranked"
    unfolding assms(5) by (rule rankedItems_fst [OF lim])
  have ov: "list_ex (\<lambda>item. leaveByTime H ctx (fst item) = Some (Inl RangeError))
              (rankedItems H connections ctx) = overflow"
    unfolding overflow_ranked rk assms(6) ..
  have one: "0 \<le> requested \<longrightarrow>
            (\<forall>c. (transfersCount c \<le> limit) = (real_of_int (transfersCount c) \<le> requested))"
    unfolding assms(4) using limit_requested by blast
  have two: "overflow \<longrightarrow> buildDecisionSummary H connections ctx = Inl RangeError"
    unfolding summary_result [OF assms(1)] ov by simp
  have ids: "mset (map optId (relabel (sort_key snd (optionsWithScore H ctx (rankedItems H connections ctx)))))
      = mset (map connId ranked)"
    unfolding sorted_options_ids rk [symmetric] map_map comp_def ..
  have "ranked \<noteq> []"
    unfolding assms(5) using assms(1) by (auto simp: filter_empty_conv)
  then have "mset (map connId ranked) \<noteq> {#}"
    by simp
  then have ne: "relabel (sort_key snd (optionsWithScore H ctx (rankedItems H connections ctx))) \<noteq> []"
    unfolding ids [symmetric] by simp
  have three: "\<not> overflow \<longrightarrow>
            (\<exists>s. buildDecisionSummary H connections ctx = Inr s
               \<and> mset (map optId (options s)) = mset (map connId ranked)
               \<and> options s \<noteq> []
               \<and> constraintNote s =
                   (if \<exists>c\<in>set connections. transfersCount c \<le> limit then None
                    else Some (''No routes within '' @ showInt limit @ '' transfer''
                                 @ (if limit = 1 then [] else ''s'')
                                 @ ''; showing closest matches.'')))"
    unfolding summary_result [OF assms(1)] ov
    using ids ne note_limit [OF lim, of H connections]
    by (simp add: assemble_fields)
  from one two three show ?thesis by blast
qed


theorem maxTransfers_filter_witness:
  "\<not> isl (buildDecisionSummary exHost [exRushConnection, exWetConnection] exBufferContext)
   \<and> map optId (options (projr (buildDecisionSummary exHost [exRushConnection, exWetConnection]
                                    exBufferContext))) = [''wet'']
   \<and> constraintNote (projr (buildDecisionSummary exHost [exRushConnection, exWetConnection]
                                exBufferContext)) = None"
proof -
  have n: "[exRushConnection, exWetConnection] \<noteq> []" by simp
  have m: "maxTransfers \<lparr>maxTransfers = Some 0, preferLowWalking = None,
              minimizeOutdoorIfRaining = None\<rparr> = Some 0"
    by simp
  have l: "(0::int) = max 0 \<lfloor>0 :: real\<rfloor>" by simp
  note t = maxTransfers_filter [where H = exHost and ctx = exBufferContext,
      OF n exBufferPrefs(1) m l refl refl]
  then obtain s where
    s: "buildDecisionSummary exHost [exRushConnection, exWetConnection] exBufferContext = Inr s"
    and i: "mset (map optId (options s)) = {#''wet''#}"
    and c: "constraintNote s = None"
    using exHostTimes(2) by (auto simp: exRushWetCounts exBufferPrefs exHostTimes(1))
  from i have "map optId (options s) = [''wet'']"
    by (rule mset_single_list)
  with s c show ?thesis by simp
qed

text \<open>
  With the requested number itself as the limit, a request of \<open>-1\<close> is satisfied
  by no connection, so that all connections would be ranked under a note; the code
  ranks the direct connection alone and attaches no note. With a departure buffer of
  144000000001 minutes, the leave-by date of a connection that departs at the epoch is
  out of range, and the operation throws.
\<close>

theorem maxTransfers_requested_counterexample:
  "\<not> isl (buildDecisionSummary exHost [exDirectConnection, exConnection] exNegativeLimitContext)
   \<and> map optId (options (projr (buildDecisionSummary exHost [exDirectConnection, exConnection]
                                    exNegativeLimitContext))) = [''d0'']
   \<and> constraintNote (projr (buildDecisionSummary exHost [exDirectConnection, exConnection]
                                exNegativeLimitContext)) = None
   \<and> rankedItems_spec exHost [exDirectConnection, exConnection] (- 1)
     = [(exDirectConnection, exNoMetrics), (exConnection, exNoMetrics)]
   \<and> \<not> real_of_int (transfersCount exDirectConnection) \<le> - 1
   \<and> \<not> real_of_int (transfersCount exConnection) \<le> - 1
   \<and> buildDecisionSummary exHost [exWetConnection] exOverflowContext = Inl RangeError"
proof -
  let ?cs = "[exDirectConnection, exConnection]"
  have l: "maxTransfersOf exNegativeLimitContext = Some 0"
    by (simp add: maxTransfersOf_def exNegativeLimit)
  have r: "rankedItems exHost ?cs exNegativeLimitContext = [(exDirectConnection, exNoMetrics)]"
    unfolding rankedItems_def exPairComputed l
    by (simp add: filtered_def withinLimit_def exCounts)
  have o: "\<not> list_ex (\<lambda>item. leaveByTime exHost exNegativeLimitContext (fst item) = Some (Inl RangeError))
              (rankedItems exHost ?cs exNegativeLimitContext)"
    unfolding overflow_ranked by (simp add: exNegativeLimitContext_def)
  have s: "buildDecisionSummary exHost ?cs exNegativeLimitContext =
     Inr (assemble exHost exNegativeLimitContext
            (constraintNoteOf (maxTransfersOf exNegativeLimitContext) (computed exHost ?cs))
            (relabel (sort_key snd (optionsWithScore exHost exNegativeLimitContext
                                      (rankedItems exHost ?cs exNegativeLimitContext)))))"
    using o by (simp add: summary_result)
  have "mset (map optId (relabel (sort_key snd (optionsWithScore exHost exNegativeLimitContext
                                      (rankedItems exHost ?cs exNegativeLimitContext)))))
       = {#''d0''#}"
    unfolding sorted_options_ids r by (simp add: exRushWetCounts)
  then have a: "map optId (relabel (sort_key snd (optionsWithScore exHost exNegativeLimitContext
                                      (rankedItems exHost ?cs exNegativeLimitContext)))) = [''d0'']"
    by (rule mset_single_list)
  have b: "constraintNoteOf (maxTransfersOf exNegativeLimitContext) (computed exHost ?cs) = None"
    unfolding note_limit [OF l] by (simp add: exCounts)
  have c: "rankedItems_spec exHost ?cs (- 1)
     = [(exDirectConnection, exNoMetrics), (exConnection, exNoMetrics)]"
    unfolding rankedItems_spec_def exPairComputed by (simp add: exCounts)
  have w: "map fst (rankedItems exHost [exWetConnection] exOverflowContext) = [exWetConnection]"
    unfolding rankedItems_fst [OF exOverflowPrefs(1)] by (simp add: exRushWetCounts)
  have "list_ex (\<lambda>item. leaveByTime exHost exOverflowContext (fst item) = Some (Inl RangeError))
              (rankedItems exHost [exWetConnection] exOverflowContext)"
    unfolding overflow_ranked w
    by (simp add: exOverflowPrefs exRushWetCounts exHostTimes)
  then have d: "buildDecisionSummary exHost [exWetConnection] exOverflowContext = Inl RangeError"
    by (simp add: summary_result)
  from s a b c d show ?thesis
    by (simp add: assemble_fields exCounts)
qed

section \<open>The risk model\<close>

text \<open>
  Claim C1. In the arithmetic of the engine, whatever its rounding, the risk score is
  the sum of the delay likelihood, the weather exposure risk and the tight transfer
  penalty, clamped to the unit interval. The delay likelihood is one minus the
  reliability, which is the score of the reliability record, else the reliability score
  of the connection, else 0.7. The weather exposure risk is the weather penalty, 0 when
  there is none, times 0.3 plus 0.7 times the exposure minutes over 20 clamped to the
  unit interval. The tight transfer penalty is 0.12 for a minimum transfer wait below 6
  minutes, 0.06 from 6 up to 8 minutes, and 0 otherwise or without a transfer. The
  level is high exactly from 0.6 on, medium exactly from 0.35 up to 0.6, and low below.
\<close>

theorem computeRisk_formula:
  assumes "rel = (case reliability c of
                    None \<Rightarrow> (case reliabilityScore c of None \<Rightarrow> lit N 0.7 | Some s \<Rightarrow> s)
                  | Some r \<Rightarrow>
                      (case score r of
                         None \<Rightarrow> (case reliabilityScore c of None \<Rightarrow> lit N 0.7 | Some s \<Rightarrow> s)
                       | Some s \<Rightarrow> s))"
    and "pen = (case weather c of
                  None \<Rightarrow> 0
                | Some w \<Rightarrow> (case penalty w of None \<Rightarrow> 0 | Some p \<Rightarrow> p))"
    and "tight = (case minTransferMinutes m of
                    None \<Rightarrow> 0
                  | Some w \<Rightarrow> if w < 6 then lit N 0.12 else if w < 8 then lit N 0.06 else 0)"
    and "expo = max 0 (min 1 (quot N (real_of_int (exposureMinutes m)) 20))"
    and "sc = max 0 (min 1
                (add N (add N (sub N 1 rel)
                              (mul N pen (add N (lit N 0.3) (mul N (lit N 0.7) expo))))
                       tight))"
    and "lit N 0.35 \<le> lit N 0.6"
  shows "riskScore (computeRiskOn N c m) = sc
       \<and> (riskLevel (computeRiskOn N c m) = High \<longleftrightarrow> lit N 0.6 \<le> sc)
       \<and> (riskLevel (computeRiskOn N c m) = Medium \<longleftrightarrow> lit N 0.35 \<le> sc \<and> sc < lit N 0.6)
       \<and> (riskLevel (computeRiskOn N c m) = Low \<longleftrightarrow> sc < lit N 0.35)"
proof -
  have r: "(case (case reliability c of None \<Rightarrow> None | Some r \<Rightarrow> score r) of
              Some s \<Rightarrow> s
            | None \<Rightarrow> (case reliabilityScore c of Some s \<Rightarrow> s | None \<Rightarrow> lit N 0.7)) = rel"
    unfolding assms(1) by (simp split: option.splits)
  have p: "(case (case weather c of None \<Rightarrow> None | Some w \<Rightarrow> penalty w) of
              Some p \<Rightarrow> p
            | None \<Rightarrow> 0) = pen"
    unfolding assms(2) by (simp split: option.splits)
  have t: "(if minTransferMinutes m \<noteq> None \<and> the (minTransferMinutes m) < 6 then lit N 0.12
            else if minTransferMinutes m \<noteq> None \<and> the (minTransferMinutes m) < 8 then lit N 0.06
            else 0) = tight"
    unfolding assms(3) by (cases "minTransferMinutes m") simp_all
  have s: "riskScore (computeRiskOn N c m) = sc"
    unfolding assms(5) assms(4)
    by (simp only: computeRiskOn_def Let_def clamp_def r p t Risk.select_convs)
  have l: "riskLevel (computeRiskOn N c m) =
       (if lit N 0.6 \<le> riskScore (computeRiskOn N c m) then High
        else if lit N 0.35 \<le> riskScore (computeRiskOn N c m) then Medium else Low)"
    by (simp only: computeRiskOn_def Let_def Risk.select_convs)
  have l1: "riskLevel (computeRiskOn N c m) = High \<longleftrightarrow> lit N 0.6 \<le> sc"
    unfolding l s by simp
  have l2: "riskLevel (computeRiskOn N c m) = Medium \<longleftrightarrow> lit N 0.35 \<le> sc \<and> sc < lit N 0.6"
    unfolding l s by auto
  have l3: "riskLevel (computeRiskOn N c m) = Low \<longleftrightarrow> sc < lit N 0.35"
    unfolding l s using assms(6) by auto
  from s l1 l2 l3 show ?thesis by blast
qed

text \<open>
  With the doubles: reliability \<open>0.55\<close>, weather penalty \<open>0.09\<close>, 20 minutes of
  exposure and a minimum transfer wait of 7 minutes give the double below \<open>0.6\<close>,
  hence a medium risk, where the sum of the decimal numbers is \<open>0.6\<close>.
\<close>

theorem computeRisk_formula_witness:
  "riskScore (computeRiskOn doubleNumbers exDoubleConnection exDoubleMetrics)
     = 5404319552844594 / 2 ^ 53
   \<and> riskScore (computeRiskOn doubleNumbers exDoubleConnection exDoubleMetrics) < 0.6
   \<and> riskLevel (computeRiskOn doubleNumbers exDoubleConnection exDoubleMetrics) = Medium"
proof -
  have h1: "nearestDouble 0.55 =
      (case reliability exDoubleConnection of
         None \<Rightarrow> (case reliabilityScore exDoubleConnection of
                    None \<Rightarrow> lit doubleNumbers 0.7 | Some s \<Rightarrow> s)
       | Some r \<Rightarrow>
           (case score r of
              None \<Rightarrow> (case reliabilityScore exDoubleConnection of
                         None \<Rightarrow> lit doubleNumbers 0.7 | Some s \<Rightarrow> s)
            | Some s \<Rightarrow> s))"
    by (simp add: exDoubleConnection_def)
  have h2: "nearestDouble 0.09 =
      (case weather exDoubleConnection of
         None \<Rightarrow> 0
       | Some w \<Rightarrow> (case penalty w of None \<Rightarrow> 0 | Some p \<Rightarrow> p))"
    by (simp add: exDoubleConnection_def)
  have h3: "nearestDouble 0.06 =
      (case minTransferMinutes exDoubleMetrics of
         None \<Rightarrow> 0
       | Some w \<Rightarrow> if w < 6 then lit doubleNumbers 0.12
                   else if w < 8 then lit doubleNumbers 0.06 else 0)"
    by (simp add: exDoubleMetrics_def doubleNumbers_def)
  have h4: "(1::real) =
      max 0 (min 1 (quot doubleNumbers (real_of_int (exposureMinutes exDoubleMetrics)) 20))"
    by (simp add: exDoubleMetrics_def doubleNumbers_def nearestDouble_one)
  have v: "add doubleNumbers
             (add doubleNumbers (sub doubleNumbers 1 (nearestDouble 0.55))
                (mul doubleNumbers (nearestDouble 0.09)
                   (add doubleNumbers (lit doubleNumbers 0.3)
                      (mul doubleNumbers (lit doubleNumbers 0.7) 1))))
             (nearestDouble 0.06)
           = 5404319552844594 / 2 ^ 53"
    by (simp only: doubleNumbers_def numbers.select_convs exDoubleValues exDoubleSteps)
  have h5: "(5404319552844594 / 2 ^ 53 :: real) =
      max 0 (min 1
        (add doubleNumbers
             (add doubleNumbers (sub doubleNumbers 1 (nearestDouble 0.55))
                (mul doubleNumbers (nearestDouble 0.09)
                   (add doubleNumbers (lit doubleNumbers 0.3)
                      (mul doubleNumbers (lit doubleNumbers 0.7) 1))))
             (nearestDouble 0.06)))"
    unfolding v by simp
  have h6: "lit doubleNumbers 0.35 \<le> lit doubleNumbers 0.6"
    by (simp only: doubleNumbers_def numbers.select_convs exDoubleValues) simp
  note t = computeRisk_formula [OF h1 h2 h3 h4 h5 h6]
  have lits: "lit doubleNumbers 0.6 = 5404319552844595 / 2 ^ 53"
    "lit doubleNumbers 0.35 = 6305039478318694 / 2 ^ 54"
    by (simp_all only: doubleNumbers_def numbers.select_convs exDoubleValues)
  from t have sc: "riskScore (computeRiskOn doubleNumbers exDoubleConnection exDoubleMetrics)
     = 5404319552844594 / 2 ^ 53"
    by (rule conjunct1)
  from t have md: "riskLevel (computeRiskOn doubleNumbers exDoubleConnection exDoubleMetrics) = Medium
      \<longleftrightarrow> lit doubleNumbers 0.35 \<le> (5404319552844594 / 2 ^ 53 :: real)
          \<and> (5404319552844594 / 2 ^ 53 :: real) < lit doubleNumbers 0.6"
    by blast
  have cmp: "(6305039478318694 / 2 ^ 54 :: real) \<le> 5404319552844594 / 2 ^ 53
      \<and> (5404319552844594 / 2 ^ 53 :: real) < 5404319552844595 / 2 ^ 53"
    by simp
  have lt: "(5404319552844594 / 2 ^ 53 :: real) < 0.6"
    by simp
  from cmp have lv: "riskLevel (computeRiskOn doubleNumbers exDoubleConnection exDoubleMetrics) = Medium"
    unfolding md lits .
  from sc lt lv show ?thesis
    by (simp only:) 
qed

end
